theory Spec2Isabelle
  imports Main
begin

section \<open>The deploy orchestration of \<open>internal/pkg/cli/deploy.go\<close>\<close>

text \<open>
  The theory embeds \<^verbatim>\<open>deployOpts\<close> and its methods \<^verbatim>\<open>askName\<close>,
  \<^verbatim>\<open>listWsEnvironments\<close>, \<^verbatim>\<open>askEnv\<close>, \<^verbatim>\<open>checkEnvExists\<close>,
  \<^verbatim>\<open>maybeInitEnv\<close>, \<^verbatim>\<open>maybeDeployEnv\<close>, \<^verbatim>\<open>maybeInitWkld\<close>,
  \<^verbatim>\<open>loadWkldCmd\<close>, \<^verbatim>\<open>Run\<close> and the \<^verbatim>\<open>setupDeployCmd\<close> closure that
  \<^verbatim>\<open>newDeployOpts\<close> installs. The collaborators behind the interfaces (store, workspace,
  selector, prompter, workload adder, command factories and the commands themselves) are
  parameters; every call to one of them is appended to a call log carried in the state, so
  that "is never invoked" is a statement about that log.
\<close>

subsection \<open>Errors and formatting\<close>

text \<open>
  A Go \<^verbatim>\<open>error\<close> as \<^verbatim>\<open>fmt.Errorf\<close> builds it: a message, and for a format with
  \<^verbatim>\<open>%w\<close> the wrapped operand as well. \<open>Error\<close> is the method \<^verbatim>\<open>Error()\<close>.
\<close>

datatype error = ErrorString string | WrapError string error

fun Error :: "error \<Rightarrow> string" where
  "Error (ErrorString s) = s"
| "Error (WrapError s e) = s"

text \<open>
  \<^verbatim>\<open>fmt.Sprintf\<close> for the verbs this file uses: \<^verbatim>\<open>%s\<close> and \<^verbatim>\<open>%w\<close> print the
  operand (an error operand is passed as its message), \<^verbatim>\<open>%q\<close> prints what
  \<^verbatim>\<open>strconv.Quote\<close> makes of it. \<^verbatim>\<open>strconv.Quote\<close> belongs to the Go library and is
  the first argument \<open>q\<close>. Every call in the source has as many operands as verbs.
\<close>

fun Sprintf :: "(string \<Rightarrow> string) \<Rightarrow> string \<Rightarrow> string list \<Rightarrow> string" where
  "Sprintf q [] as = []"
| "Sprintf q [c] as = [c]"
| "Sprintf q (c # v # f) as =
     (if c = CHR ''%'' then
        (case as of
           [] \<Rightarrow> ''%!'' @ [v] @ ''(MISSING)'' @ Sprintf q f []
         | a # as' \<Rightarrow> (if v = CHR ''q'' then q a else a) @ Sprintf q f as')
      else c # Sprintf q (v # f) as)"

text \<open>\<^verbatim>\<open>fmt.Errorf\<close> without \<^verbatim>\<open>%w\<close>, and with \<^verbatim>\<open>%w\<close> as the last verb.\<close>

definition Errorf :: "(string \<Rightarrow> string) \<Rightarrow> string \<Rightarrow> string list \<Rightarrow> error" where
  "Errorf q f as = ErrorString (Sprintf q f as)"

definition Errorf_w ::
  "(string \<Rightarrow> string) \<Rightarrow> string \<Rightarrow> string list \<Rightarrow> error \<Rightarrow> error" where
  "Errorf_w q f as err = WrapError (Sprintf q f (as @ [Error err])) err"

text \<open>\<^verbatim>\<open>aws.BoolValue\<close>: the value behind the pointer, \<^verbatim>\<open>false\<close> for \<^verbatim>\<open>nil\<close>.\<close>

fun BoolValue :: "bool option \<Rightarrow> bool" where
  "BoolValue None = False"
| "BoolValue (Some b) = b"

subsection \<open>Data\<close>

text \<open>\<^verbatim>\<open>config.Workload\<close>.\<close>

record Workload =
  App :: string
  Name :: string
  Type :: string

text \<open>
  A workload manifest, as far as this file looks at it: what its method
  \<^verbatim>\<open>WorkloadType()\<close> returns.
\<close>

type_synonym manifest = "error + string"

datatype stage = Validate | Ask | Execute | RecommendActions

text \<open>
  The two \<^verbatim>\<open>cmd\<close> implementations the environment factories build, and the two
  \<^verbatim>\<open>actionCommand\<close> implementations \<^verbatim>\<open>setupDeployCmd\<close> builds, with the
  workload name it stores in \<^verbatim>\<open>opts.name\<close>.
\<close>

datatype cmd = InitEnvOpts | DeployEnvOpts

datatype actionCommand = DeployJobOpts string | DeploySvcOpts string

text \<open>
  What \<^verbatim>\<open>store.GetEnvironment\<close> returns: an environment, an error that
  \<^verbatim>\<open>errors.As\<close> recognises as \<^verbatim>\<open>*config.ErrNoSuchEnvironment\<close>, or another error.
\<close>

datatype getenv_result = EnvFound | ErrNoSuchEnvironment error | EnvOtherError error

text \<open>One entry of the call log: a call to a collaborator with its arguments, or a log line.\<close>

datatype event =
    ListWorkloads string
  | GetWorkload string string
  | GetEnvironment string string
  | StoreListEnvironments string
  | WsListEnvironments
  | ReadWorkloadManifest string
  | SelWorkload string string
  | SelEnvironment string string string "(string \<times> string) list"
  | Confirm string string
  | AddWorkloadToApp string string string
  | NewInitEnvCmd
  | NewDeployEnvCmd
  | SetupDeployCmd string string
  | InitEnvStage stage
  | DeployEnvStage stage
  | WkldStage string stage
  | LogInfof string
  | LogErrorf string

text \<open>
  The collaborators. Each answer may depend on the calls made so far (the first argument),
  so a store that changes after \<^verbatim>\<open>AddWorkloadToApp\<close> is covered. \<open>JobTypes\<close> and
  \<open>WorkloadTypes\<close> are the lists of package \<^verbatim>\<open>manifestinfo\<close>, \<open>HighlightCode\<close> is
  \<^verbatim>\<open>color.HighlightCode\<close>; neither package is part of the sources at hand. \<open>Quote\<close> is
  \<^verbatim>\<open>strconv.Quote\<close> of the Go library.
\<close>

record world =
  store_ListWorkloads :: "event list \<Rightarrow> string \<Rightarrow> error + Workload list"
  store_GetWorkload :: "event list \<Rightarrow> string \<Rightarrow> string \<Rightarrow> error + Workload"
  store_GetEnvironment :: "event list \<Rightarrow> string \<Rightarrow> string \<Rightarrow> getenv_result"
  store_ListEnvironments :: "event list \<Rightarrow> string \<Rightarrow> error + string list"
  ws_ListEnvironments :: "event list \<Rightarrow> error + string list"
  ws_ReadWorkloadManifest :: "event list \<Rightarrow> string \<Rightarrow> error + manifest"
  sel_Workload :: "event list \<Rightarrow> string \<Rightarrow> string \<Rightarrow> error + string"
  sel_Environment ::
    "event list \<Rightarrow> string \<Rightarrow> string \<Rightarrow> string \<Rightarrow> (string \<times> string) list \<Rightarrow> error + string"
  prompt_Confirm :: "event list \<Rightarrow> string \<Rightarrow> string \<Rightarrow> error + bool"
  adder_AddWorkloadToApp :: "event list \<Rightarrow> string \<Rightarrow> string \<Rightarrow> string \<Rightarrow> error option"
  newInitEnvCmd :: "event list \<Rightarrow> error + cmd"
  newDeployEnvCmd :: "event list \<Rightarrow> error + cmd"
  setupDeployCmd :: "event list \<Rightarrow> string \<Rightarrow> string \<Rightarrow> error + actionCommand"
  cmd_stage :: "event list \<Rightarrow> cmd \<Rightarrow> stage \<Rightarrow> error option"
  action_stage :: "event list \<Rightarrow> actionCommand \<Rightarrow> stage \<Rightarrow> error option"
  JobTypes :: "string list"
  WorkloadTypes :: "string list"
  Quote :: "string \<Rightarrow> string"
  HighlightCode :: "string \<Rightarrow> string"

text \<open>
  \<^verbatim>\<open>deployOpts\<close>: the fields that the methods below read or write. A slice that can be
  \<^verbatim>\<open>nil\<close> is an option (\<open>None\<close> is \<^verbatim>\<open>nil\<close>, \<open>Some []\<close> is an empty slice that
  is not \<^verbatim>\<open>nil\<close>), and so is a \<^verbatim>\<open>*bool\<close>. \<open>calls\<close> is the call log.
\<close>

record deployOpts =
  appName :: string
  envName :: string
  workloadNames :: "string list option"
  yesInitWkld :: "bool option"
  deployEnv :: "bool option"
  yesInitEnv :: "bool option"
  wlType :: string
  envExistsInApp :: bool
  envExistsInWs :: bool
  wsEnvironments :: "string list option"
  calls :: "event list"

definition emit :: "event \<Rightarrow> deployOpts \<Rightarrow> deployOpts" where
  "emit ev o' = o'\<lparr>calls := calls o' @ [ev]\<rparr>"

text \<open>\<^verbatim>\<open>len\<close> and \<^verbatim>\<open>range\<close> of a slice that may be \<^verbatim>\<open>nil\<close>.\<close>

fun elems :: "'a list option \<Rightarrow> 'a list" where
  "elems None = []"
| "elems (Some xs) = xs"

text \<open>
  The flag names \<^verbatim>\<open>yesInitWorkloadFlag\<close> and \<^verbatim>\<open>deployEnvFlag\<close> are declared in
  another file of the package; their values are the ones the tests and the usage examples
  of \<^verbatim>\<open>BuildDeployCmd\<close> show.
\<close>

definition yesInitWorkloadFlag :: string where
  "yesInitWorkloadFlag = ''init-wkld''"

definition deployEnvFlag :: string where
  "deployEnvFlag = ''deploy-env''"

definition svcWkldType :: string where
  "svcWkldType = ''svc''"

definition jobWkldType :: string where
  "jobWkldType = ''job''"

subsection \<open>Workload initialisation\<close>

text \<open>
  The prompt of \<^verbatim>\<open>maybeInitWkld\<close>, taken when \<^verbatim>\<open>yesInitWkld\<close> is \<^verbatim>\<open>nil\<close>. The
  third argument of \<^verbatim>\<open>Confirm\<close>, a display option, is left out.
\<close>

definition confirmInitWkld ::
  "world \<Rightarrow> string \<Rightarrow> string \<Rightarrow> deployOpts \<Rightarrow> error option \<times> deployOpts" where
  "confirmInitWkld w name workloadType o' =
     (case yesInitWkld o' of
        Some b \<Rightarrow> (None, o')
      | None \<Rightarrow>
          (let msg = Sprintf (Quote w) ''Found manifest for uninitialized %s %q. Initialize it?''
                       [workloadType, name];
               help = ''This workload will be initialized, then deployed.'';
               o1 = emit (Confirm msg help) o'
           in case prompt_Confirm w (calls o') msg help of
                Inl err \<Rightarrow> (Some (Errorf_w (Quote w) ''confirm initialize workload: %w'' [] err), o1)
              | Inr confirmInitWkld \<Rightarrow> (None, o1\<lparr>yesInitWkld := Some confirmInitWkld\<rparr>)))"

definition maybeInitWkld :: "world \<Rightarrow> string \<Rightarrow> deployOpts \<Rightarrow> error option \<times> deployOpts" where
  "maybeInitWkld w name o' =
     (let o1 = emit (ListWorkloads (appName o')) o' in
      case store_ListWorkloads w (calls o') (appName o') of
        Inl err \<Rightarrow> (Some (Errorf_w (Quote w) ''retrieve workloads: %w'' [] err), o1)
      | Inr initializedWorkloads \<Rightarrow>
          (let wlNames = map Name initializedWorkloads in
           if name \<in> set wlNames then (None, o1)
           else
             (let o2 = emit (ReadWorkloadManifest name) o1 in
              case ws_ReadWorkloadManifest w (calls o1) name of
                Inl err \<Rightarrow>
                  (Some (Errorf_w (Quote w) ''read manifest for workload %s: %w'' [name] err), o2)
              | Inr mf \<Rightarrow>
                  (case mf of
                     Inl err \<Rightarrow>
                       (Some (Errorf_w (Quote w)
                          ''get workload type from manifest for workload %s: %w'' [name] err), o2)
                   | Inr workloadType \<Rightarrow>
                       if workloadType \<notin> set (WorkloadTypes w) then
                         (Some (Errorf (Quote w)
                            ''unrecognized workload type %q in manifest for workload %s''
                            [workloadType, name]), o2)
                       else
                         (case confirmInitWkld w name workloadType o2 of
                            (Some err, o3) \<Rightarrow> (Some err, o3)
                          | (None, o3) \<Rightarrow>
                              if \<not> BoolValue (yesInitWkld o3) then
                                (Some (Errorf (Quote w)
                                   ''workload %s is uninitialized but --%s=false was specified''
                                   [name, yesInitWorkloadFlag]), o3)
                              else
                                (let o4 = emit (AddWorkloadToApp (appName o3) name workloadType) o3
                                 in case adder_AddWorkloadToApp w (calls o3) (appName o3) name
                                           workloadType of
                                      Some err \<Rightarrow>
                                        (Some (Errorf_w (Quote w) ''add workload to app: %w'' [] err), o4)
                                    | None \<Rightarrow> (None, o4)))))))"

subsection \<open>Resolving the request\<close>

definition askName :: "world \<Rightarrow> deployOpts \<Rightarrow> error option \<times> deployOpts" where
  "askName w o' =
     (if workloadNames o' \<noteq> None \<or> length (elems (workloadNames o')) \<noteq> 0 then (None, o')
      else
        (let msg = ''Select a service or job in your workspace'';
             o1 = emit (SelWorkload msg []) o'
         in case sel_Workload w (calls o') msg [] of
              Inl err \<Rightarrow> (Some (Errorf_w (Quote w) ''select service or job: %w'' [] err), o1)
            | Inr name \<Rightarrow> (None, o1\<lparr>workloadNames := Some [name]\<rparr>)))"

definition listWsEnvironments :: "world \<Rightarrow> deployOpts \<Rightarrow> (error + string list) \<times> deployOpts" where
  "listWsEnvironments w o' =
     (case wsEnvironments o' of
        None \<Rightarrow>
          (let o1 = emit WsListEnvironments o' in
           case ws_ListEnvironments w (calls o') of
             Inl err \<Rightarrow> (Inl err, o1)
           | Inr envs \<Rightarrow> (Inr envs, o1\<lparr>wsEnvironments := Some envs\<rparr>))
      | Some envs \<Rightarrow> (Inr envs, o'))"

text \<open>
  In \<^verbatim>\<open>askEnv\<close> the assignment \<^verbatim>\<open>o.envName, err = o.sel.Environment(...)\<close> also stores
  the string that comes with an error; the model keeps the (empty) name in that case, and
  \<^verbatim>\<open>Run\<close> returns at once.
\<close>

definition askEnv :: "world \<Rightarrow> deployOpts \<Rightarrow> error option \<times> deployOpts" where
  "askEnv w o' =
     (if envName o' \<noteq> [] then (None, o')
      else
        (case listWsEnvironments w o' of
           (Inl err, o1) \<Rightarrow> (Some (Errorf_w (Quote w) ''get workspace environments: %w'' [] err), o1)
         | (Inr localEnvs, o1) \<Rightarrow>
             (let o2 = emit (StoreListEnvironments (appName o1)) o1 in
              case store_ListEnvironments w (calls o1) (appName o1) of
                Inl err \<Rightarrow> (Some (Errorf_w (Quote w) ''get initialized environments: %w'' [] err), o2)
              | Inr initializedEnvs \<Rightarrow>
                  (let extraOptions =
                         map (\<lambda>localEnv. (localEnv, ''uninitialized''))
                           (filter (\<lambda>localEnv. localEnv \<notin> set initializedEnvs) localEnvs);
                       msg = ''Select an environment to deploy to'';
                       o3 = emit (SelEnvironment msg [] (appName o2) extraOptions) o2
                   in case sel_Environment w (calls o2) msg [] (appName o2) extraOptions of
                        Inl err \<Rightarrow> (Some (Errorf_w (Quote w) ''get environment name: %w'' [] err), o3)
                      | Inr name \<Rightarrow> (None, o3\<lparr>envName := name\<rparr>)))))"

subsection \<open>The environment\<close>

definition checkEnvExists :: "world \<Rightarrow> deployOpts \<Rightarrow> error option \<times> deployOpts" where
  "checkEnvExists w o' =
     (let o1 = emit (GetEnvironment (appName o') (envName o')) (o'\<lparr>envExistsInApp := True\<rparr>) in
      case store_GetEnvironment w (calls o') (appName o') (envName o') of
        EnvOtherError err \<Rightarrow>
          (Some (Errorf_w (Quote w) ''get environment from config store: %w'' [] err), o1)
      | r \<Rightarrow>
          (let o2 = (case r of ErrNoSuchEnvironment err \<Rightarrow> o1\<lparr>envExistsInApp := False\<rparr> | _ \<Rightarrow> o1)
           in case listWsEnvironments w o2 of
                (Inl err, o3) \<Rightarrow>
                  (Some (Errorf_w (Quote w) ''list environments in workspace: %w'' [] err), o3)
              | (Inr envs, o3) \<Rightarrow>
                  (let o4 = o3\<lparr>envExistsInWs := (envName o3 \<in> set envs)\<rparr> in
                   if \<not> envExistsInApp o4 \<and> \<not> envExistsInWs o4 then
                     (Some (Errorf (Quote w) ''environment %q does not exist in the workspace'' [envName o4]),
                      emit (LogErrorf (Sprintf (Quote w)
                        (''Environment %q does not exist in the current application or workspace. Please initialize it by running %s.'' @ [CHR 0x0A])
                        [envName o4, HighlightCode w ''copilot env init''])) o4)
                   else if envExistsInApp o4 \<and> \<not> envExistsInWs o4 then
                     (None,
                      emit (LogInfof (Sprintf (Quote w)
                        ''Manifest for environment %q does not exist in the current workspace. To deploy this environment, generate a manifest with %s''
                        [envName o4, HighlightCode w ''copilot env show --manifest''])) o4)
                   else (None, o4))))"

text \<open>One stage of an environment command; \<open>tag\<close> says which of the two commands it is.\<close>

definition call_cmd ::
  "world \<Rightarrow> (stage \<Rightarrow> event) \<Rightarrow> cmd \<Rightarrow> stage \<Rightarrow> deployOpts \<Rightarrow> error option \<times> deployOpts" where
  "call_cmd w tag c s o' = (cmd_stage w (calls o') c s, emit (tag s) o')"

text \<open>The prompt of \<^verbatim>\<open>maybeInitEnv\<close>, taken when \<^verbatim>\<open>yesInitEnv\<close> is \<^verbatim>\<open>nil\<close>.\<close>

definition confirmInitEnv :: "world \<Rightarrow> deployOpts \<Rightarrow> error option \<times> deployOpts" where
  "confirmInitEnv w o' =
     (if \<not> envExistsInApp o' \<and> yesInitEnv o' = None then
        (let msg = Sprintf (Quote w) ''Environment %q does not exist in app %q. Initialize it?''
                     [envName o', appName o'];
             o1 = emit (Confirm msg []) o'
         in case prompt_Confirm w (calls o') msg [] of
              Inl err \<Rightarrow> (Some (Errorf_w (Quote w) ''confirm env init: %w'' [] err), o1)
            | Inr v \<Rightarrow> (None, o1\<lparr>yesInitEnv := Some v\<rparr>))
      else (None, o'))"

definition maybeInitEnv :: "world \<Rightarrow> deployOpts \<Rightarrow> error option \<times> deployOpts" where
  "maybeInitEnv w o' =
     (if envExistsInApp o' then (None, o')
      else
        (case confirmInitEnv w o' of
           (Some err, o1) \<Rightarrow> (Some err, o1)
         | (None, o1) \<Rightarrow>
             if BoolValue (yesInitEnv o1) then
               (let o2 = emit NewInitEnvCmd o1 in
                case newInitEnvCmd w (calls o1) of
                  Inl err \<Rightarrow> (Some (Errorf_w (Quote w) ''load env init command : %w'' [] err), o2)
                | Inr c \<Rightarrow>
                    (case call_cmd w InitEnvStage c Validate o2 of
                       (Some err, o3) \<Rightarrow> (Some err, o3)
                     | (None, o3) \<Rightarrow>
                    (case call_cmd w InitEnvStage c Ask o3 of
                       (Some err, o4) \<Rightarrow> (Some err, o4)
                     | (None, o4) \<Rightarrow>
                    (case call_cmd w InitEnvStage c Execute o4 of
                       (Some err, o5) \<Rightarrow> (Some err, o5)
                     | (None, o5) \<Rightarrow>
                         if deployEnv o5 = None then
                           (None,
                            (emit (LogInfof (Sprintf (Quote w)
                               (''Environment %q was just initialized. We'' @ [CHR 0x27]
                                  @ ''ll deploy it now.'' @ [CHR 0x0A])
                               [envName o5])) o5)\<lparr>deployEnv := Some True\<rparr>)
                         else if \<not> BoolValue (deployEnv o5) then
                           (Some (Errorf (Quote w)
                              ''environment %s was initialized but has not been deployed''
                              [envName o5]),
                            emit (LogErrorf (Sprintf (Quote w)
                              (''Environment is not deployed but --%s=false was specified. Deploy the environment with %s in order to deploy a workload to it.'' @ [CHR 0x0A])
                              [deployEnvFlag, HighlightCode w ''copilot env deploy''])) o5)
                         else (None, o5)))))
             else
               (Some (Errorf (Quote w) ''env %s does not exist in app %s'' [envName o1, appName o1]),
                emit (LogErrorf (Sprintf (Quote w)
                  (''Environment %q does not exist in application %q and was not initialized after prompting.'' @ [CHR 0x0A])
                  [envName o1, appName o1])) o1)))"

definition maybeDeployEnv :: "world \<Rightarrow> deployOpts \<Rightarrow> error option \<times> deployOpts" where
  "maybeDeployEnv w o' =
     (if \<not> envExistsInWs o' then (None, o')
      else if BoolValue (deployEnv o') then
        (let o1 = emit NewDeployEnvCmd o' in
         case newDeployEnvCmd w (calls o') of
           Inl err \<Rightarrow> (Some (Errorf_w (Quote w) ''set up env deploy command: %w'' [] err), o1)
         | Inr c \<Rightarrow>
             (case call_cmd w DeployEnvStage c Validate o1 of
                (Some err, o2) \<Rightarrow> (Some err, o2)
              | (None, o2) \<Rightarrow>
             (case call_cmd w DeployEnvStage c Ask o2 of
                (Some err, o3) \<Rightarrow> (Some err, o3)
              | (None, o3) \<Rightarrow> call_cmd w DeployEnvStage c Execute o3)))
      else (None, o'))"

subsection \<open>The workload deploy command\<close>

text \<open>
  The closure \<^verbatim>\<open>newDeployOpts\<close> stores in the field \<^verbatim>\<open>setupDeployCmd\<close>. Both
  \<^verbatim>\<open>case\<close> clauses of its \<^verbatim>\<open>switch\<close> test membership in
  \<^verbatim>\<open>manifestinfo.JobTypes()\<close>; the first builds \<^verbatim>\<open>deployJobOpts\<close>, the second
  \<^verbatim>\<open>deploySvcOpts\<close>.
\<close>

definition newDeployOpts_setupDeployCmd ::
  "world \<Rightarrow> string \<Rightarrow> string \<Rightarrow> error + actionCommand" where
  "newDeployOpts_setupDeployCmd w workloadName workloadType =
     (if workloadType \<in> set (JobTypes w) then Inr (DeployJobOpts workloadName)
      else if workloadType \<in> set (JobTypes w) then Inr (DeploySvcOpts workloadName)
      else Inl (Errorf (Quote w) ''unrecognized workload type %s'' [workloadType]))"

definition loadWkldCmd ::
  "world \<Rightarrow> string \<Rightarrow> deployOpts \<Rightarrow> (error + actionCommand) \<times> deployOpts" where
  "loadWkldCmd w name o' =
     (let o1 = emit (GetWorkload (appName o') name) o' in
      case store_GetWorkload w (calls o') (appName o') name of
        Inl err \<Rightarrow>
          (Inl (Errorf_w (Quote w) ''retrieve %s from application %s: %w'' [appName o', name] err), o1)
      | Inr wl \<Rightarrow>
          (let o2 = emit (SetupDeployCmd name (Type wl)) o1 in
           case setupDeployCmd w (calls o1) name (Type wl) of
             Inl err \<Rightarrow> (Inl err, o2)
           | Inr c \<Rightarrow>
               if Type wl \<in> set (JobTypes w) then (Inr c, o2\<lparr>wlType := jobWkldType\<rparr>)
               else (Inr c, o2\<lparr>wlType := svcWkldType\<rparr>)))"

subsection \<open>Run\<close>

text \<open>One stage of the deploy command built for workload \<open>workload\<close>.\<close>

definition call_action ::
  "world \<Rightarrow> string \<Rightarrow> actionCommand \<Rightarrow> stage \<Rightarrow> deployOpts \<Rightarrow> error option \<times> deployOpts" where
  "call_action w workload c s o' = (action_stage w (calls o') c s, emit (WkldStage workload s) o')"

text \<open>The body of the loop of \<^verbatim>\<open>Run\<close> over \<^verbatim>\<open>o.workloadNames\<close>.\<close>

definition deployWorkload :: "world \<Rightarrow> string \<Rightarrow> deployOpts \<Rightarrow> error option \<times> deployOpts" where
  "deployWorkload w workload o' =
     (case maybeInitWkld w workload o' of
        (Some err, o1) \<Rightarrow> (Some err, o1)
      | (None, o1) \<Rightarrow>
     (case loadWkldCmd w workload o1 of
        (Inl err, o2) \<Rightarrow> (Some err, o2)
      | (Inr deployCmd, o2) \<Rightarrow>
     (case call_action w workload deployCmd Ask o2 of
        (Some err, o3) \<Rightarrow> (Some (Errorf_w (Quote w) ''ask %s deploy: %w'' [wlType o3] err), o3)
      | (None, o3) \<Rightarrow>
     (case call_action w workload deployCmd Validate o3 of
        (Some err, o4) \<Rightarrow> (Some (Errorf_w (Quote w) ''validate %s deploy: %w'' [wlType o4] err), o4)
      | (None, o4) \<Rightarrow>
     (case call_action w workload deployCmd Execute o4 of
        (Some err, o5) \<Rightarrow> (Some (Errorf_w (Quote w) ''execute %s deploy: %w'' [wlType o5] err), o5)
      | (None, o5) \<Rightarrow>
     (case call_action w workload deployCmd RecommendActions o5 of
        (Some err, o6) \<Rightarrow> (Some err, o6)
      | (None, o6) \<Rightarrow> (None, o6)))))))"

fun deployWorkloads :: "world \<Rightarrow> string list \<Rightarrow> deployOpts \<Rightarrow> error option \<times> deployOpts" where
  "deployWorkloads w [] o' = (None, o')"
| "deployWorkloads w (workload # rest) o' =
     (case deployWorkload w workload o' of
        (Some err, o1) \<Rightarrow> (Some err, o1)
      | (None, o1) \<Rightarrow> deployWorkloads w rest o1)"

definition Run :: "world \<Rightarrow> deployOpts \<Rightarrow> error option \<times> deployOpts" where
  "Run w o' =
     (case askName w o' of
        (Some err, o1) \<Rightarrow> (Some err, o1)
      | (None, o1) \<Rightarrow>
     (case askEnv w o1 of
        (Some err, o2) \<Rightarrow> (Some err, o2)
      | (None, o2) \<Rightarrow>
     (case checkEnvExists w o2 of
        (Some err, o3) \<Rightarrow> (Some err, o3)
      | (None, o3) \<Rightarrow>
     (case maybeInitEnv w o3 of
        (Some err, o4) \<Rightarrow> (Some err, o4)
      | (None, o4) \<Rightarrow>
     (case maybeDeployEnv w o4 of
        (Some err, o5) \<Rightarrow> (Some err, o5)
      | (None, o5) \<Rightarrow> deployWorkloads w (elems (workloadNames o5)) o5)))))"

subsection \<open>Derived forms\<close>

text \<open>
  The four stage calls of the loop body, with the call log written out, and \<^verbatim>\<open>Run\<close>
  up to its loop. Both are proved equal to the definitions above
  (\<open>deployWorkload_loaded\<close>, \<open>Run_prepare\<close>).
\<close>

definition runStages :: "world \<Rightarrow> string \<Rightarrow> actionCommand \<Rightarrow> deployOpts \<Rightarrow> error option \<times> deployOpts" where
  "runStages w n c o2 = 
     (case action_stage w (calls o2) c Ask of
        Some e \<Rightarrow> (Some (Errorf_w (Quote w) ''ask %s deploy: %w'' [wlType o2] e), emit (WkldStage n Ask) o2)
      | None \<Rightarrow>
     (case action_stage w (calls o2 @ [WkldStage n Ask]) c Validate of
        Some e \<Rightarrow> (Some (Errorf_w (Quote w) ''validate %s deploy: %w'' [wlType o2] e),
                   emit (WkldStage n Validate) (emit (WkldStage n Ask) o2))
      | None \<Rightarrow>
     (case action_stage w (calls o2 @ [WkldStage n Ask, WkldStage n Validate]) c Execute of
        Some e \<Rightarrow> (Some (Errorf_w (Quote w) ''execute %s deploy: %w'' [wlType o2] e),
                   emit (WkldStage n Execute) (emit (WkldStage n Validate) (emit (WkldStage n Ask) o2)))
      | None \<Rightarrow>
         (action_stage w (calls o2 @ [WkldStage n Ask, WkldStage n Validate, WkldStage n Execute]) c RecommendActions,
          emit (WkldStage n RecommendActions) (emit (WkldStage n Execute) (emit (WkldStage n Validate) (emit (WkldStage n Ask) o2)))))))"

definition andThen ::
  "error option \<times> deployOpts \<Rightarrow> (deployOpts \<Rightarrow> error option \<times> deployOpts) \<Rightarrow> error option \<times> deployOpts" where
  "andThen r f = (case r of (Some e, o1) \<Rightarrow> (Some e, o1) | (None, o1) \<Rightarrow> f o1)"

definition prepare :: "world \<Rightarrow> deployOpts \<Rightarrow> error option \<times> deployOpts" where
  "prepare w o' =
     andThen (andThen (andThen (andThen (askName w o') (askEnv w)) (checkEnvExists w))
       (maybeInitEnv w)) (maybeDeployEnv w)"

subsection \<open>Projections of the call log\<close>

text \<open>The stages of workload deploy commands in a log, each with the workload it ran for.\<close>

definition wkldStages :: "event list \<Rightarrow> (string \<times> stage) list" where
  "wkldStages es = concat (map (\<lambda>e. case e of WkldStage n s \<Rightarrow> [(n, s)] | _ \<Rightarrow> []) es)"

text \<open>The order in which \<^verbatim>\<open>Run\<close> calls the four stages for one workload.\<close>

definition deployOrder :: "string \<Rightarrow> (string \<times> stage) list" where
  "deployOrder n = [(n, Ask), (n, Validate), (n, Execute), (n, RecommendActions)]"

text \<open>The calls that belong to the environment deploy command: its factory and its stages.\<close>

definition envDeployCalls :: "event list \<Rightarrow> event list" where
  "envDeployCalls es =
     filter (\<lambda>e. case e of NewDeployEnvCmd \<Rightarrow> True | DeployEnvStage s \<Rightarrow> True | _ \<Rightarrow> False) es"

subsection \<open>Fixtures\<close>

text \<open>
  The collaborators of \<^verbatim>\<open>TestDeployOpts_Run\<close>: an application \<open>app\<close> with the service
  \<open>fe\<close> and the job \<open>mailer\<close>, an environment \<open>test\<close> known to the store and to the
  workspace, and commands whose stages all succeed. As in the tests, \<open>setupDeployCmd\<close> is a
  stub that returns a command for every type.
\<close>

definition mockWl :: Workload where
  "mockWl = \<lparr>App = ''app'', Name = ''fe'', Type = ''Load Balanced Web Service''\<rparr>"

definition mockJob :: Workload where
  "mockJob = \<lparr>App = ''app'', Name = ''mailer'', Type = ''Scheduled Job''\<rparr>"

definition mockError :: error where
  "mockError = ErrorString ''some error''"

text \<open>
  \<open>mockQuote\<close> is what \<^verbatim>\<open>strconv.Quote\<close> returns for a string of printable ASCII
  characters other than the double quote and the backslash, as all the names of the
  fixtures are. \<open>mockHighlightCode\<close> puts the text between backquotes, with no colour
  codes.
\<close>

definition mockQuote :: "string \<Rightarrow> string" where
  "mockQuote s = CHR 0x22 # s @ [CHR 0x22]"

definition mockHighlightCode :: "string \<Rightarrow> string" where
  "mockHighlightCode s = CHR 0x60 # s @ [CHR 0x60]"

definition testWorld :: world where
  "testWorld =
     \<lparr>store_ListWorkloads = (\<lambda>h app. Inr [mockWl, mockJob]),
      store_GetWorkload = (\<lambda>h app name.
        if name = ''fe'' then Inr mockWl
        else if name = ''mailer'' then Inr mockJob
        else Inl mockError),
      store_GetEnvironment = (\<lambda>h app env. EnvFound),
      store_ListEnvironments = (\<lambda>h app. Inr [''test'']),
      ws_ListEnvironments = (\<lambda>h. Inr [''test'']),
      ws_ReadWorkloadManifest = (\<lambda>h name. Inr (Inr ''Load Balanced Web Service'')),
      sel_Workload = (\<lambda>h msg help. Inr ''fe''),
      sel_Environment = (\<lambda>h msg help app extra. Inr ''test''),
      prompt_Confirm = (\<lambda>h msg help. Inr True),
      adder_AddWorkloadToApp = (\<lambda>h app name t. None),
      newInitEnvCmd = (\<lambda>h. Inr InitEnvOpts),
      newDeployEnvCmd = (\<lambda>h. Inr DeployEnvOpts),
      setupDeployCmd = (\<lambda>h name t. Inr (DeploySvcOpts name)),
      cmd_stage = (\<lambda>h c s. None),
      action_stage = (\<lambda>h c s. None),
      JobTypes = [''Scheduled Job''],
      WorkloadTypes = [''Request-Driven Web Service'', ''Load Balanced Web Service'',
        ''Backend Service'', ''Worker Service'', ''Static Site'', ''Scheduled Job''],
      Quote = mockQuote,
      HighlightCode = mockHighlightCode\<rparr>"

definition testOpts :: deployOpts where
  "testOpts =
     \<lparr>appName = ''app'', envName = ''test'', workloadNames = Some [''fe''],
      yesInitWkld = None, deployEnv = Some False, yesInitEnv = Some False, wlType = [],
      envExistsInApp = False, envExistsInWs = False, wsEnvironments = None, calls = []\<rparr>"

text \<open>
  \<open>prodWorld\<close> has the \<open>setupDeployCmd\<close> that \<^verbatim>\<open>newDeployOpts\<close> installs, in place of the
  stub; in \<open>storeDownWorld\<close> the store cannot retrieve a workload.
\<close>

definition prodWorld :: world where
  "prodWorld =
     testWorld\<lparr>setupDeployCmd := (\<lambda>h. newDeployOpts_setupDeployCmd testWorld)\<rparr>"

definition storeDownWorld :: world where
  "storeDownWorld = testWorld\<lparr>store_GetWorkload := (\<lambda>h app name. Inl mockError)\<rparr>"

text \<open>
  In \<open>askFailWorld\<close> the stage \<^verbatim>\<open>Ask\<close> of every workload deploy command fails;
  \<open>twoOpts\<close> asks for two workloads.
\<close>

definition askFailWorld :: world where
  "askFailWorld = testWorld\<lparr>action_stage := (\<lambda>h c s. if s = Ask then Some mockError else None)\<rparr>"

definition twoOpts :: deployOpts where
  "twoOpts = testOpts\<lparr>workloadNames := Some [''fe'', ''mailer'']\<rparr>"

text \<open>
  In \<open>stageFailWorld n s\<close> stage \<open>s\<close> of the deploy command of workload \<open>n\<close> fails, in
  \<open>recFailWorld\<close> the stage \<^verbatim>\<open>RecommendActions\<close> of every command, and in
  \<open>listFailWorld\<close> the store cannot list the workloads. \<open>threeOpts\<close> asks for three
  workloads.
\<close>

definition stageFailWorld :: "string \<Rightarrow> stage \<Rightarrow> world" where
  "stageFailWorld n s =
     testWorld\<lparr>action_stage := (\<lambda>h c s'.
        if (c = DeploySvcOpts n \<or> c = DeployJobOpts n) \<and> s' = s then Some mockError else None)\<rparr>"

definition recFailWorld :: world where
  "recFailWorld =
     testWorld\<lparr>action_stage := (\<lambda>h c s. if s = RecommendActions then Some mockError else None)\<rparr>"

definition listFailWorld :: world where
  "listFailWorld = testWorld\<lparr>store_ListWorkloads := (\<lambda>h app. Inl mockError)\<rparr>"

definition threeOpts :: deployOpts where
  "threeOpts = testOpts\<lparr>workloadNames := Some [''fe'', ''mailer'', ''fe'']\<rparr>"

text \<open>
  Environments. In \<open>nowhereWorld\<close> the environment \<open>test\<close> is neither in the store nor in
  the workspace, in \<open>storeOnlyWorld\<close> only in the store, in \<open>freshEnvWorld\<close> only in the
  workspace; in \<open>envDeployFailWorld\<close> the stage \<^verbatim>\<open>Validate\<close> of the environment deploy
  command fails as well. \<open>forcedOpts\<close> has \<^verbatim>\<open>deployEnv\<close> forced to true, \<open>unsetOpts\<close> has
  \<^verbatim>\<open>deployEnv\<close> and \<^verbatim>\<open>yesInitEnv\<close> unset.
\<close>

definition nowhereWorld :: world where
  "nowhereWorld =
     testWorld\<lparr>store_GetEnvironment := (\<lambda>h app env. ErrNoSuchEnvironment mockError),
               ws_ListEnvironments := (\<lambda>h. Inr [])\<rparr>"

definition storeOnlyWorld :: world where
  "storeOnlyWorld = testWorld\<lparr>ws_ListEnvironments := (\<lambda>h. Inr [])\<rparr>"

definition freshEnvWorld :: world where
  "freshEnvWorld =
     testWorld\<lparr>store_GetEnvironment := (\<lambda>h app env. ErrNoSuchEnvironment mockError)\<rparr>"

definition envDeployFailWorld :: world where
  "envDeployFailWorld =
     freshEnvWorld\<lparr>cmd_stage := (\<lambda>h c s.
        if c = DeployEnvOpts \<and> s = Validate then Some mockError else None)\<rparr>"

definition forcedOpts :: deployOpts where
  "forcedOpts = testOpts\<lparr>deployEnv := Some True\<rparr>"

definition unsetOpts :: deployOpts where
  "unsetOpts = testOpts\<lparr>deployEnv := None, yesInitEnv := None\<rparr>"

subsection \<open>Basic facts\<close>

declare Sprintf.simps [simp del]

lemma wkldStages_append [simp]: "wkldStages (xs @ ys) = wkldStages xs @ wkldStages ys"
  by (simp add: wkldStages_def)

lemma wkldStages_Nil [simp]: "wkldStages [] = []"
  by (simp add: wkldStages_def)

lemma wkldStages_Cons [simp]:
  "wkldStages (e # es) = (case e of WkldStage n s \<Rightarrow> [(n, s)] | _ \<Rightarrow> []) @ wkldStages es"
  by (simp add: wkldStages_def)

lemma calls_emit [simp]: "calls (emit e o') = calls o' @ [e]"
  by (simp add: emit_def)

lemma emit_fields [simp]:
  "appName (emit e o') = appName o'" "envName (emit e o') = envName o'"
  "workloadNames (emit e o') = workloadNames o'" "yesInitWkld (emit e o') = yesInitWkld o'"
  "deployEnv (emit e o') = deployEnv o'" "yesInitEnv (emit e o') = yesInitEnv o'"
  "wlType (emit e o') = wlType o'" "envExistsInApp (emit e o') = envExistsInApp o'"
  "envExistsInWs (emit e o') = envExistsInWs o'" "wsEnvironments (emit e o') = wsEnvironments o'"
  by (simp_all add: emit_def)

subsection \<open>A workload that is already initialised\<close>

text \<open>
  C9. When the name is in the list that \<^verbatim>\<open>store.ListWorkloads\<close> returns for the
  application, \<^verbatim>\<open>maybeInitWkld\<close> returns \<^verbatim>\<open>nil\<close> and leaves the options as they were;
  the one call it has made is \<^verbatim>\<open>ListWorkloads\<close>. So the manifest is not read, nothing
  is prompted, and \<^verbatim>\<open>AddWorkloadToApp\<close> is not called.
\<close>

theorem maybeInitWkld_already_initialized:
  assumes "store_ListWorkloads w (calls o') (appName o') = Inr initializedWorkloads"
    and "name \<in> set (map Name initializedWorkloads)"
  shows "maybeInitWkld w name o' = (None, o'\<lparr>calls := calls o' @ [ListWorkloads (appName o')]\<rparr>)"
  using assms by (simp add: maybeInitWkld_def emit_def)

theorem maybeInitWkld_already_initialized_witness:
  "store_ListWorkloads testWorld (calls testOpts) (appName testOpts) = Inr [mockWl, mockJob]
   \<and> ''fe'' \<in> set (map Name [mockWl, mockJob])
   \<and> maybeInitWkld testWorld ''fe'' testOpts = (None, testOpts\<lparr>calls := [ListWorkloads ''app'']\<rparr>)"
proof -
  have h1: "store_ListWorkloads testWorld (calls testOpts) (appName testOpts) = Inr [mockWl, mockJob]"
    by (simp add: testWorld_def)
  have h2: "''fe'' \<in> set (map Name [mockWl, mockJob])"
    by (simp add: mockWl_def)
  show ?thesis
    using h1 h2 maybeInitWkld_already_initialized [OF h1 h2] by (simp add: testOpts_def)
qed

subsection \<open>Resolving the workload name\<close>

lemma Sprintf_select:
  "Sprintf q ''select service or job: %w'' [c] = ''select service or job: '' @ c"
  by (simp add: Sprintf.simps)

text \<open>
  C8, as stated, fails for a slice that is empty but not \<^verbatim>\<open>nil\<close>: the guard of
  \<^verbatim>\<open>askName\<close> is \<^verbatim>\<open>o.workloadNames != nil || len(o.workloadNames) != 0\<close>, so the
  selector is not called and the sequence stays empty.
\<close>

theorem askName_empty_slice_counterexample:
  "askName testWorld (testOpts\<lparr>workloadNames := Some []\<rparr>) =
     (None, testOpts\<lparr>workloadNames := Some []\<rparr>)"
  by (simp add: askName_def)

text \<open>
  C8, amended. When \<^verbatim>\<open>workloadNames\<close> is \<^verbatim>\<open>nil\<close>, \<^verbatim>\<open>askName\<close> calls the
  selector once; on success \<^verbatim>\<open>workloadNames\<close> becomes the one selected name, on failure
  the error is wrapped as "select service or job: ..." and the sequence stays \<^verbatim>\<open>nil\<close>.
  A sequence that is not \<^verbatim>\<open>nil\<close>, empty or not, is left as it is and no call is made.
\<close>

theorem askName_resolves:
  "(workloadNames o' = None \<and>
      sel_Workload w (calls o') ''Select a service or job in your workspace'' [] = Inr name
    \<longrightarrow> askName w o' =
          (None, o'\<lparr>calls := calls o' @ [SelWorkload ''Select a service or job in your workspace'' []],
                     workloadNames := Some [name]\<rparr>))
   \<and> (workloadNames o' = None \<and>
      sel_Workload w (calls o') ''Select a service or job in your workspace'' [] = Inl err
    \<longrightarrow> askName w o' =
          (Some (WrapError (''select service or job: '' @ Error err) err),
           o'\<lparr>calls := calls o' @ [SelWorkload ''Select a service or job in your workspace'' []]\<rparr>))
   \<and> (workloadNames o' = Some names \<longrightarrow> askName w o' = (None, o'))"
  by (simp add: askName_def emit_def Errorf_w_def Sprintf_select)

theorem askName_resolves_witness:
  "askName testWorld (testOpts\<lparr>workloadNames := None\<rparr>) =
     (None, testOpts\<lparr>calls := [SelWorkload ''Select a service or job in your workspace'' []],
                      workloadNames := Some [''fe'']\<rparr>)
   \<and> askName (testWorld\<lparr>sel_Workload := (\<lambda>h msg help. Inl mockError)\<rparr>)
        (testOpts\<lparr>workloadNames := None\<rparr>) =
     (Some (WrapError ''select service or job: some error'' mockError),
      testOpts\<lparr>calls := [SelWorkload ''Select a service or job in your workspace'' []],
                workloadNames := None\<rparr>)
   \<and> askName testWorld testOpts = (None, testOpts)"
  using askName_resolves [of "testOpts\<lparr>workloadNames := None\<rparr>" testWorld "''fe''" mockError "[''fe'']"]
    askName_resolves [of "testOpts\<lparr>workloadNames := None\<rparr>"
       "testWorld\<lparr>sel_Workload := (\<lambda>h msg help. Inl mockError)\<rparr>" "''fe''" mockError "[''fe'']"]
    askName_resolves [of testOpts testWorld "''fe''" mockError "[''fe'']"]
  by (simp add: testWorld_def testOpts_def mockError_def)

subsection \<open>Loading the deploy command\<close>

lemma Sprintf_unrecognized:
  "Sprintf q ''unrecognized workload type %s'' [t] = ''unrecognized workload type '' @ t"
  by (simp add: Sprintf.simps)

lemma setupDeployCmd_not_job:
  "workloadType \<notin> set (JobTypes w) \<Longrightarrow>
   newDeployOpts_setupDeployCmd w workloadName workloadType =
     Inl (ErrorString (''unrecognized workload type '' @ workloadType))"
  by (simp add: newDeployOpts_setupDeployCmd_def Errorf_def Sprintf_unrecognized)

lemma setupDeployCmd_never_svc:
  "newDeployOpts_setupDeployCmd w workloadName workloadType \<noteq> Inr (DeploySvcOpts n)"
  by (simp add: newDeployOpts_setupDeployCmd_def)

lemmas run_defs =
  Run_def askName_def askEnv_def checkEnvExists_def listWsEnvironments_def maybeInitEnv_def
  confirmInitEnv_def maybeDeployEnv_def maybeInitWkld_def confirmInitWkld_def
  deployWorkload_def loadWkldCmd_def call_cmd_def call_action_def emit_def
  Errorf_def Errorf_w_def

text \<open>
  C1. The service branch of \<^verbatim>\<open>setupDeployCmd\<close> repeats the test of the job branch, so
  it is never taken: the registered service \<open>fe\<close> of type "Load Balanced Web Service" gets
  no deploy command. \<^verbatim>\<open>loadWkldCmd\<close>, and with it \<^verbatim>\<open>Run\<close>, return "unrecognized
  workload type Load Balanced Web Service", and no stage of a deploy command runs.
\<close>

theorem loadWkldCmd_service_unrecognized:
  "newDeployOpts_setupDeployCmd testWorld ''fe'' ''Load Balanced Web Service'' =
     Inl (ErrorString ''unrecognized workload type Load Balanced Web Service'')
   \<and> fst (loadWkldCmd prodWorld ''fe'' testOpts) =
     Inl (ErrorString ''unrecognized workload type Load Balanced Web Service'')
   \<and> fst (Run prodWorld testOpts) =
     Some (ErrorString ''unrecognized workload type Load Balanced Web Service'')
   \<and> wkldStages (calls (snd (Run prodWorld testOpts))) = []"
  apply (intro conjI)
     apply (simp add: newDeployOpts_setupDeployCmd_def testWorld_def Errorf_def Sprintf.simps)
    apply (simp add: run_defs prodWorld_def testWorld_def testOpts_def mockWl_def
      newDeployOpts_setupDeployCmd_def Sprintf.simps)
   apply (simp add: run_defs prodWorld_def testWorld_def testOpts_def mockWl_def
      newDeployOpts_setupDeployCmd_def Sprintf.simps)
  apply (simp add: run_defs prodWorld_def testWorld_def testOpts_def mockWl_def
      newDeployOpts_setupDeployCmd_def Sprintf.simps)
  done

lemma Sprintf_retrieve:
  "Sprintf q ''retrieve %s from application %s: %w'' [a, b, c] =
     ''retrieve '' @ a @ '' from application '' @ b @ '': '' @ c"
  by (simp add: Sprintf.simps)

lemma loadWkldCmd_GetWorkload_error:
  "store_GetWorkload w (calls o') (appName o') name = Inl err \<Longrightarrow>
   fst (loadWkldCmd w name o') =
     Inl (WrapError
       (''retrieve '' @ appName o' @ '' from application '' @ name @ '': '' @ Error err) err)"
  by (simp add: loadWkldCmd_def Errorf_w_def Sprintf_retrieve)

text \<open>
  C7. When \<^verbatim>\<open>GetWorkload\<close> fails for workload \<open>fe\<close> of application \<open>app\<close>, the message
  is "retrieve app from application fe: some error": the operands of the format are the
  application name first and the workload name second.
\<close>

theorem loadWkldCmd_retrieve_message:
  "fst (loadWkldCmd storeDownWorld ''fe'' testOpts) =
     Inl (WrapError ''retrieve app from application fe: some error'' mockError)"
  by (simp add: loadWkldCmd_def storeDownWorld_def testWorld_def testOpts_def mockError_def
      Errorf_w_def Sprintf.simps)

subsection \<open>The loop over the workloads\<close>

lemma maybeInitWkld_stages:
  "wkldStages (calls (snd (maybeInitWkld w n o'))) = wkldStages (calls o')"
  by (simp add: maybeInitWkld_def confirmInitWkld_def Let_def split: sum.splits option.splits prod.splits)

lemma loadWkldCmd_stages:
  "wkldStages (calls (snd (loadWkldCmd w n o'))) = wkldStages (calls o')"
  by (simp add: loadWkldCmd_def Let_def split: sum.splits option.splits prod.splits)

lemma maybeInitWkld_names:
  "workloadNames (snd (maybeInitWkld w n o')) = workloadNames o'"
  by (simp add: maybeInitWkld_def confirmInitWkld_def Let_def split: sum.splits option.splits prod.splits)

lemma loadWkldCmd_names:
  "workloadNames (snd (loadWkldCmd w n o')) = workloadNames o'"
  by (simp add: loadWkldCmd_def Let_def split: sum.splits option.splits prod.splits)

lemma deployWorkload_init_fails:
  "maybeInitWkld w n o' = (Some e, o1) \<Longrightarrow> deployWorkload w n o' = (Some e, o1)"
  by (simp add: deployWorkload_def)

lemma deployWorkload_load_fails:
  "maybeInitWkld w n o' = (None, o1) \<Longrightarrow> loadWkldCmd w n o1 = (Inl e, o2) \<Longrightarrow>
   deployWorkload w n o' = (Some e, o2)"
  by (simp add: deployWorkload_def)

lemma deployWorkload_loaded:
  "maybeInitWkld w n o' = (None, o1) \<Longrightarrow> loadWkldCmd w n o1 = (Inr c, o2) \<Longrightarrow>
   deployWorkload w n o' = runStages w n c o2"
  by (simp add: deployWorkload_def runStages_def call_action_def split: option.splits)

lemma runStages_stages:
  "\<exists>j. 1 \<le> j \<and> j \<le> 4 \<and>
     wkldStages (calls (snd (runStages w n c o2))) = wkldStages (calls o2) @ take j (deployOrder n) \<and>
     (fst (runStages w n c o2) = None \<longrightarrow> j = 4)"
proof (cases "action_stage w (calls o2) c Ask")
  case (Some e)
  then show ?thesis
    by (intro exI[of _ 1]) (simp add: runStages_def deployOrder_def)
next
  case a: None
  show ?thesis
  proof (cases "action_stage w (calls o2 @ [WkldStage n Ask]) c Validate")
    case (Some e)
    then show ?thesis using a
      by (intro exI[of _ 2]) (simp add: runStages_def deployOrder_def)
  next
    case v: None
    show ?thesis
    proof (cases "action_stage w (calls o2 @ [WkldStage n Ask, WkldStage n Validate]) c Execute")
      case (Some e)
      then show ?thesis using a v
        by (intro exI[of _ 3]) (simp add: runStages_def deployOrder_def)
    next
      case None
      then show ?thesis using a v
        by (intro exI[of _ 4]) (simp add: runStages_def deployOrder_def)
    qed
  qed
qed

lemma runStages_names: "workloadNames (snd (runStages w n c o2)) = workloadNames o2"
  by (simp add: runStages_def split: option.splits)

lemma deployWorkload_names: "workloadNames (snd (deployWorkload w n o')) = workloadNames o'"
proof (cases "maybeInitWkld w n o'")
  case (Pair r1 o1)
  note i = this
  have n1: "workloadNames o1 = workloadNames o'" using maybeInitWkld_names [of w n o'] i by simp
  show ?thesis
  proof (cases r1)
    case (Some e)
    with i have "deployWorkload w n o' = (Some e, o1)" by (intro deployWorkload_init_fails) simp
    then show ?thesis using n1 by simp
  next
    case None
    with i have i': "maybeInitWkld w n o' = (None, o1)" by simp
    show ?thesis
    proof (cases "loadWkldCmd w n o1")
      case (Pair r2 o2)
      have n2: "workloadNames o2 = workloadNames o1" using loadWkldCmd_names [of w n o1] Pair by simp
      show ?thesis
      proof (cases r2)
        case (Inl e)
        with Pair have "loadWkldCmd w n o1 = (Inl e, o2)" by simp
        from deployWorkload_load_fails [OF i' this] show ?thesis using n1 n2 by simp
      next
        case (Inr c)
        with Pair have "loadWkldCmd w n o1 = (Inr c, o2)" by simp
        from deployWorkload_loaded [OF i' this] show ?thesis using n1 n2 by (simp add: runStages_names)
      qed
    qed
  qed
qed

lemma deployWorkload_stages:
  "\<exists>j. j \<le> 4 \<and>
     wkldStages (calls (snd (deployWorkload w n o'))) = wkldStages (calls o') @ take j (deployOrder n) \<and>
     (fst (deployWorkload w n o') = None \<longrightarrow> j = 4) \<and>
     (1 \<le> j) = (fst (maybeInitWkld w n o') = None \<and>
                 \<not> isl (fst (loadWkldCmd w n (snd (maybeInitWkld w n o')))))"
proof (cases "maybeInitWkld w n o'")
  case (Pair r1 o1)
  note i = this
  have s1: "wkldStages (calls o1) = wkldStages (calls o')"
    using maybeInitWkld_stages [of w n o'] by (simp only: i snd_conv)
  show ?thesis
  proof (cases r1)
    case (Some e)
    with i have i': "maybeInitWkld w n o' = (Some e, o1)" by simp
    have d: "deployWorkload w n o' = (Some e, o1)" by (rule deployWorkload_init_fails [OF i'])
    show ?thesis
      apply (rule exI[of _ 0])
      apply (simp only: d i' fst_conv snd_conv s1)
      apply simp
      done
  next
    case None
    with i have i': "maybeInitWkld w n o' = (None, o1)" by simp
    show ?thesis
    proof (cases "loadWkldCmd w n o1")
      case (Pair r2 o2)
      have s2: "wkldStages (calls o2) = wkldStages (calls o1)"
        using loadWkldCmd_stages [of w n o1] by (simp only: Pair snd_conv)
      show ?thesis
      proof (cases r2)
        case (Inl e)
        with Pair have l: "loadWkldCmd w n o1 = (Inl e, o2)" by simp
        have d: "deployWorkload w n o' = (Some e, o2)" by (rule deployWorkload_load_fails [OF i' l])
        show ?thesis
          apply (rule exI[of _ 0])
          apply (simp only: d i' l fst_conv snd_conv s1 s2)
          apply simp
          done
      next
        case (Inr c)
        with Pair have l: "loadWkldCmd w n o1 = (Inr c, o2)" by simp
        have d: "deployWorkload w n o' = runStages w n c o2" by (rule deployWorkload_loaded [OF i' l])
        from runStages_stages [of w n c o2] obtain j where jj: "1 \<le> j \<and> j \<le> 4 \<and>
          wkldStages (calls (snd (runStages w n c o2))) = wkldStages (calls o2) @ take j (deployOrder n) \<and>
          (fst (runStages w n c o2) = None \<longrightarrow> j = 4)" ..
        note j = conjunct1 [OF jj] conjunct1 [OF conjunct2 [OF jj]]
          conjunct1 [OF conjunct2 [OF conjunct2 [OF jj]]]
          conjunct2 [OF conjunct2 [OF conjunct2 [OF jj]]]
        have a: "wkldStages (calls (snd (deployWorkload w n o'))) =
                   wkldStages (calls o') @ take j (deployOrder n)"
          by (simp only: d j(3) s2 s1)
        have b: "fst (deployWorkload w n o') = None \<longrightarrow> j = 4"
          unfolding d by (rule j(4))
        have c: "(1 \<le> j) = (fst (maybeInitWkld w n o') = None \<and>
                 \<not> isl (fst (loadWkldCmd w n (snd (maybeInitWkld w n o')))))"
          unfolding i' fst_conv snd_conv l using j(1) by simp
        from j(2) a b c show ?thesis by (intro exI[of _ j] conjI)
      qed
    qed
  qed
qed

lemma deployWorkloads_append:
  "deployWorkloads w (xs @ ys) o' =
     (case deployWorkloads w xs o' of
        (Some e, o1) \<Rightarrow> (Some e, o1)
      | (None, o1) \<Rightarrow> deployWorkloads w ys o1)"
proof (induction xs arbitrary: o')
  case Nil show ?case by simp
next
  case (Cons x xs)
  obtain r o1 where d: "deployWorkload w x o' = (r, o1)" by (cases "deployWorkload w x o'")
  show ?case 
  proof (cases r)
    case None
    show ?thesis by (simp only: append_Cons deployWorkloads.simps d None Cons [of o1] prod.case option.case)
  next
    case (Some e)
    show ?thesis by (simp only: append_Cons deployWorkloads.simps d Some prod.case option.case)
  qed
qed

lemma deployWorkload_stages_ok:
  assumes "deployWorkload w n o' = (None, o1)"
  shows "wkldStages (calls o1) = wkldStages (calls o') @ deployOrder n"
proof -
  from deployWorkload_stages [of w n o'] obtain j where jj: "j \<le> 4 \<and>
     wkldStages (calls (snd (deployWorkload w n o'))) = wkldStages (calls o') @ take j (deployOrder n) \<and>
     (fst (deployWorkload w n o') = None \<longrightarrow> j = 4) \<and>
     (1 \<le> j) = (fst (maybeInitWkld w n o') = None \<and>
                 \<not> isl (fst (loadWkldCmd w n (snd (maybeInitWkld w n o')))))" ..
  have j4: "j = 4" using conjunct1 [OF conjunct2 [OF conjunct2 [OF jj]]] by (simp only: assms fst_conv)
  have "wkldStages (calls o1) = wkldStages (calls o') @ take 4 (deployOrder n)"
    using conjunct1 [OF conjunct2 [OF jj]] by (simp only: assms snd_conv j4)
  then show ?thesis by (simp add: deployOrder_def)
qed

lemma deployWorkload_stages_prefix:
  "\<exists>j\<le>4. wkldStages (calls (snd (deployWorkload w n o'))) =
           wkldStages (calls o') @ take j (deployOrder n)"
proof -
  from deployWorkload_stages [of w n o'] obtain j where jj: "j \<le> 4 \<and>
     wkldStages (calls (snd (deployWorkload w n o'))) = wkldStages (calls o') @ take j (deployOrder n) \<and>
     (fst (deployWorkload w n o') = None \<longrightarrow> j = 4) \<and>
     (1 \<le> j) = (fst (maybeInitWkld w n o') = None \<and>
                 \<not> isl (fst (loadWkldCmd w n (snd (maybeInitWkld w n o')))))" ..
  from conjunct1 [OF jj] conjunct1 [OF conjunct2 [OF jj]] show ?thesis
    by (intro exI[of _ j] conjI)
qed

lemma deployWorkloads_names: "workloadNames (snd (deployWorkloads w xs o')) = workloadNames o'"
proof (induction xs arbitrary: o')
  case Nil show ?case by simp
next
  case (Cons x xs)
  obtain r o1 where d: "deployWorkload w x o' = (r, o1)" by (cases "deployWorkload w x o'")
  have n1: "workloadNames o1 = workloadNames o'"
    using deployWorkload_names [of w x o'] by (simp only: d snd_conv)
  show ?case
  proof (cases r)
    case None
    show ?thesis
      by (simp only: deployWorkloads.simps d None prod.case option.case Cons [of o1] n1)
  next
    case (Some e)
    show ?thesis
      by (simp only: deployWorkloads.simps d Some prod.case option.case snd_conv n1)
  qed
qed

lemma deployWorkloads_ok_stages:
  "fst (deployWorkloads w xs o') = None \<Longrightarrow>
   wkldStages (calls (snd (deployWorkloads w xs o'))) = wkldStages (calls o') @ concat (map deployOrder xs)"
proof (induction xs arbitrary: o')
  case Nil show ?case by simp
next
  case (Cons x xs)
  obtain r o1 where d: "deployWorkload w x o' = (r, o1)" by (cases "deployWorkload w x o'")
  show ?case
  proof (cases r)
    case (Some e)
    have "fst (deployWorkloads w (x # xs) o') = Some e"
      by (simp only: deployWorkloads.simps d Some prod.case option.case fst_conv)
    with Cons.prems show ?thesis by simp
  next
    case None
    have u: "deployWorkloads w (x # xs) o' = deployWorkloads w xs o1"
      by (simp only: deployWorkloads.simps d None prod.case option.case)
    have s: "wkldStages (calls o1) = wkldStages (calls o') @ deployOrder x"
      by (rule deployWorkload_stages_ok [of w x o' o1]) (simp only: d None)
    have "fst (deployWorkloads w xs o1) = None" using Cons.prems by (simp only: u)
    from Cons.IH [OF this] show ?thesis by (simp only: u s concat.simps list.map append_assoc)
  qed
qed

lemma deployWorkloads_prefix_stages:
  "\<exists>j. wkldStages (calls (snd (deployWorkloads w xs o'))) =
         wkldStages (calls o') @ take j (concat (map deployOrder xs))"
proof (induction xs arbitrary: o')
  case Nil show ?case by simp
next
  case (Cons x xs)
  obtain r o1 where d: "deployWorkload w x o' = (r, o1)" by (cases "deployWorkload w x o'")
  have len: "length (deployOrder x) = 4" by (simp add: deployOrder_def)
  show ?case
  proof (cases r)
    case (Some e)
    have u: "deployWorkloads w (x # xs) o' = (Some e, o1)"
      by (simp only: deployWorkloads.simps d Some prod.case option.case)
    from deployWorkload_stages_prefix [of w x o'] obtain j where jj: "j \<le> 4 \<and>
        wkldStages (calls (snd (deployWorkload w x o'))) =
          wkldStages (calls o') @ take j (deployOrder x)" ..
    have "wkldStages (calls o1) = wkldStages (calls o') @ take j (deployOrder x)"
      using conjunct2 [OF jj] by (simp only: d snd_conv)
    moreover have "take j (deployOrder x) = take j (concat (map deployOrder (x # xs)))"
      using conjunct1 [OF jj] len by simp
    ultimately have "wkldStages (calls (snd (deployWorkloads w (x # xs) o'))) =
         wkldStages (calls o') @ take j (concat (map deployOrder (x # xs)))"
      by (simp only: u snd_conv)
    then show ?thesis by (rule exI)
  next
    case None
    have u: "deployWorkloads w (x # xs) o' = deployWorkloads w xs o1"
      by (simp only: deployWorkloads.simps d None prod.case option.case)
    have s: "wkldStages (calls o1) = wkldStages (calls o') @ deployOrder x"
      by (rule deployWorkload_stages_ok [of w x o' o1]) (simp only: d None)
    from Cons [of o1] obtain k where k: "wkldStages (calls (snd (deployWorkloads w xs o1))) =
         wkldStages (calls o1) @ take k (concat (map deployOrder xs))" ..
    have "take (4 + k) (concat (map deployOrder (x # xs))) =
          deployOrder x @ take k (concat (map deployOrder xs))"
      using len by simp
    then have "wkldStages (calls (snd (deployWorkloads w (x # xs) o'))) =
         wkldStages (calls o') @ take (4 + k) (concat (map deployOrder (x # xs)))"
      by (simp only: u k s append_assoc)
    then show ?thesis by (rule exI)
  qed
qed

lemma Run_prepare:
  "Run w o' = andThen (prepare w o') (\<lambda>o5. deployWorkloads w (elems (workloadNames o5)) o5)"
  by (simp add: Run_def prepare_def andThen_def split: prod.splits option.splits)

lemma andThen_frame:
  assumes "g (snd r) = a" and "\<And>o1. g (snd (f o1)) = g o1"
  shows "g (snd (andThen r f)) = a"
proof (cases r)
  case (Pair x o1)
  show ?thesis
  proof (cases x)
    case None
    have "andThen r f = f o1" by (simp only: andThen_def Pair None prod.case option.case)
    then show ?thesis using assms(1) assms(2) [of o1] by (simp only: Pair snd_conv)
  next
    case (Some e)
    have "andThen r f = (Some e, o1)" by (simp only: andThen_def Pair Some prod.case option.case)
    then show ?thesis using assms(1) by (simp only: Pair snd_conv)
  qed
qed

lemma askName_stages: "wkldStages (calls (snd (askName w o'))) = wkldStages (calls o')"
  by (simp add: askName_def Let_def split: sum.splits)

lemma listWsEnvironments_stages:
  "wkldStages (calls (snd (listWsEnvironments w o'))) = wkldStages (calls o')"
  by (simp add: listWsEnvironments_def Let_def split: sum.splits option.splits)

lemma listWsEnvironments_names:
  "workloadNames (snd (listWsEnvironments w o')) = workloadNames o'"
  by (simp add: listWsEnvironments_def Let_def split: sum.splits option.splits)

lemma askEnv_stages: "wkldStages (calls (snd (askEnv w o'))) = wkldStages (calls o')"
proof (cases "listWsEnvironments w o'")
  case (Pair r o1)
  have "wkldStages (calls o1) = wkldStages (calls o')"
    using listWsEnvironments_stages [of w o'] by (simp only: Pair snd_conv)
  then show ?thesis
    by (simp add: askEnv_def Pair Let_def split: sum.splits)
qed

lemma askEnv_names: "workloadNames (snd (askEnv w o')) = workloadNames o'"
proof (cases "listWsEnvironments w o'")
  case (Pair r o1)
  have "workloadNames o1 = workloadNames o'"
    using listWsEnvironments_names [of w o'] by (simp only: Pair snd_conv)
  then show ?thesis
    by (simp add: askEnv_def Pair Let_def split: sum.splits)
qed

lemma checkEnvExists_stages: "wkldStages (calls (snd (checkEnvExists w o'))) = wkldStages (calls o')"
  by (simp add: checkEnvExists_def listWsEnvironments_def Let_def
      split: sum.splits option.splits getenv_result.splits)

lemma checkEnvExists_names: "workloadNames (snd (checkEnvExists w o')) = workloadNames o'"
  by (simp add: checkEnvExists_def listWsEnvironments_def Let_def
      split: sum.splits option.splits getenv_result.splits)

lemma confirmInitEnv_stages: "wkldStages (calls (snd (confirmInitEnv w o'))) = wkldStages (calls o')"
  by (simp add: confirmInitEnv_def Let_def split: sum.splits)

lemma confirmInitEnv_names: "workloadNames (snd (confirmInitEnv w o')) = workloadNames o'"
  by (simp add: confirmInitEnv_def Let_def split: sum.splits)

lemma maybeInitEnv_stages: "wkldStages (calls (snd (maybeInitEnv w o'))) = wkldStages (calls o')"
proof (cases "confirmInitEnv w o'")
  case (Pair r o1)
  have "wkldStages (calls o1) = wkldStages (calls o')"
    using confirmInitEnv_stages [of w o'] by (simp only: Pair snd_conv)
  then show ?thesis
    by (simp add: maybeInitEnv_def Pair call_cmd_def Let_def split: sum.splits option.splits)
qed

lemma maybeInitEnv_names: "workloadNames (snd (maybeInitEnv w o')) = workloadNames o'"
proof (cases "confirmInitEnv w o'")
  case (Pair r o1)
  have "workloadNames o1 = workloadNames o'"
    using confirmInitEnv_names [of w o'] by (simp only: Pair snd_conv)
  then show ?thesis
    by (simp add: maybeInitEnv_def Pair call_cmd_def Let_def split: sum.splits option.splits)
qed

lemma maybeDeployEnv_stages: "wkldStages (calls (snd (maybeDeployEnv w o'))) = wkldStages (calls o')"
  by (simp add: maybeDeployEnv_def call_cmd_def Let_def split: sum.splits option.splits)

lemma maybeDeployEnv_names: "workloadNames (snd (maybeDeployEnv w o')) = workloadNames o'"
  by (simp add: maybeDeployEnv_def call_cmd_def Let_def split: sum.splits option.splits)

lemma prepare_stages: "wkldStages (calls (snd (prepare w o'))) = wkldStages (calls o')"
  unfolding prepare_def
  by (intro andThen_frame [where g = "\<lambda>s. wkldStages (calls s)"] askName_stages askEnv_stages
      checkEnvExists_stages maybeInitEnv_stages maybeDeployEnv_stages)

lemma prepare_names: "workloadNames (snd (prepare w o')) = workloadNames (snd (askName w o'))"
  unfolding prepare_def
  by (intro andThen_frame [where g = workloadNames] refl askEnv_names
      checkEnvExists_names maybeInitEnv_names maybeDeployEnv_names)

lemmas fixture_defs = testWorld_def testOpts_def mockWl_def mockJob_def mockError_def
  jobWkldType_def svcWkldType_def

lemma Sprintf_ask: "Sprintf q ''ask %s deploy: %w'' [a, b] = ''ask '' @ a @ '' deploy: '' @ b"
  by (simp add: Sprintf.simps)

lemma Sprintf_validate:
  "Sprintf q ''validate %s deploy: %w'' [a, b] = ''validate '' @ a @ '' deploy: '' @ b"
  by (simp add: Sprintf.simps)

lemma Sprintf_execute:
  "Sprintf q ''execute %s deploy: %w'' [a, b] = ''execute '' @ a @ '' deploy: '' @ b"
  by (simp add: Sprintf.simps)

lemma deployWorkload_exact:
  assumes "maybeInitWkld w n o' = (None, o1)" and "loadWkldCmd w n o1 = (Inr c, o2)"
  shows "deployWorkload w n o' =
    (case action_stage w (calls o2) c Ask of
       Some e \<Rightarrow>
         (Some (WrapError (''ask '' @ wlType o2 @ '' deploy: '' @ Error e) e),
          o2\<lparr>calls := calls o2 @ [WkldStage n Ask]\<rparr>)
     | None \<Rightarrow>
    (case action_stage w (calls o2 @ [WkldStage n Ask]) c Validate of
       Some e \<Rightarrow>
         (Some (WrapError (''validate '' @ wlType o2 @ '' deploy: '' @ Error e) e),
          o2\<lparr>calls := calls o2 @ [WkldStage n Ask, WkldStage n Validate]\<rparr>)
     | None \<Rightarrow>
    (case action_stage w (calls o2 @ [WkldStage n Ask, WkldStage n Validate]) c Execute of
       Some e \<Rightarrow>
         (Some (WrapError (''execute '' @ wlType o2 @ '' deploy: '' @ Error e) e),
          o2\<lparr>calls := calls o2 @ [WkldStage n Ask, WkldStage n Validate, WkldStage n Execute]\<rparr>)
     | None \<Rightarrow>
         (action_stage w (calls o2 @ [WkldStage n Ask, WkldStage n Validate, WkldStage n Execute])
            c RecommendActions,
          o2\<lparr>calls := calls o2 @ [WkldStage n Ask, WkldStage n Validate, WkldStage n Execute,
                                     WkldStage n RecommendActions]\<rparr>))))"
  unfolding deployWorkload_loaded [OF assms]
  by (simp add: runStages_def emit_def Errorf_w_def Sprintf_ask Sprintf_validate Sprintf_execute
      split: option.splits)

lemma maybeInitWkld_stages_eq:
  "maybeInitWkld w n o' = (r, o1) \<Longrightarrow> wkldStages (calls o1) = wkldStages (calls o')"
  using maybeInitWkld_stages [of w n o'] by simp

lemma loadWkldCmd_stages_eq:
  "loadWkldCmd w n o1 = (r, o2) \<Longrightarrow> wkldStages (calls o2) = wkldStages (calls o1)"
  using loadWkldCmd_stages [of w n o1] by simp

lemma deployWorkload_log:
  assumes "maybeInitWkld w n o' = (None, o1)" and "loadWkldCmd w n o1 = (Inr c, o2)"
  shows "calls (snd (deployWorkload w n o')) =
      calls o2 @ map (WkldStage n)
        (take (case action_stage w (calls o2) c Ask of
                 Some e \<Rightarrow> 1
               | None \<Rightarrow>
              (case action_stage w (calls o2 @ [WkldStage n Ask]) c Validate of
                 Some e \<Rightarrow> 2
               | None \<Rightarrow>
              (case action_stage w (calls o2 @ [WkldStage n Ask, WkldStage n Validate]) c Execute of
                 Some e \<Rightarrow> 3
               | None \<Rightarrow> 4)))
           [Ask, Validate, Execute, RecommendActions])"
    and "(fst (deployWorkload w n o') = None) =
      (action_stage w (calls o2) c Ask = None \<and>
       action_stage w (calls o2 @ [WkldStage n Ask]) c Validate = None \<and>
       action_stage w (calls o2 @ [WkldStage n Ask, WkldStage n Validate]) c Execute = None \<and>
       action_stage w (calls o2 @ [WkldStage n Ask, WkldStage n Validate, WkldStage n Execute])
         c RecommendActions = None)"
  unfolding deployWorkload_exact [OF assms]
  by (simp_all split: option.splits)

subsection \<open>The order of the stages\<close>




subsection \<open>The errors of the stages\<close>

lemma loadWkldCmd_wlType:
  assumes "loadWkldCmd w n o1 = (Inr c, o2)"
  shows "\<exists>wl. store_GetWorkload w (calls o1) (appName o1) n = Inr wl \<and>
          wlType o2 = (if Type wl \<in> set (JobTypes w) then ''job'' else ''svc'')"
proof (cases "store_GetWorkload w (calls o1) (appName o1) n")
  case (Inl e)
  with assms show ?thesis by (simp add: loadWkldCmd_def)
next
  case (Inr wl)
  note g = this
  show ?thesis
  proof (cases "setupDeployCmd w (calls o1 @ [GetWorkload (appName o1) n]) n (Type wl)")
    case (Inl e)
    with assms g show ?thesis by (simp add: loadWkldCmd_def)
  next
    case (Inr c')
    with assms g have "wlType o2 = (if Type wl \<in> set (JobTypes w) then ''job'' else ''svc'')"
      by (auto simp add: loadWkldCmd_def jobWkldType_def svcWkldType_def split: if_splits)
    with g show ?thesis by simp
  qed
qed

text \<open>
  C6, as stated, fails for the fourth stage: when \<^verbatim>\<open>RecommendActions\<close> fails with
  "some error", \<^verbatim>\<open>Run\<close> returns that error as it is, with no tag.
\<close>

theorem Run_recommend_unwrapped_counterexample:
  "fst (Run recFailWorld testOpts) = Some (ErrorString ''some error'')"
  by (simp add: run_defs recFailWorld_def fixture_defs Sprintf.simps)

text \<open>
  C6, amended. Once the workload is initialised and its command loaded, the label
  \<^verbatim>\<open>wlType\<close> is the one \<^verbatim>\<open>loadWkldCmd\<close> has just set from the stored type of this
  workload ("job" for a job type, "svc" otherwise). A failure of \<^verbatim>\<open>Ask\<close>,
  \<^verbatim>\<open>Validate\<close> or \<^verbatim>\<open>Execute\<close> is returned wrapped, with the message
  "ask", "validate" or "execute", then the label, then "deploy: " and the cause. A failure
  of \<^verbatim>\<open>RecommendActions\<close> is returned unwrapped.
\<close>

theorem deployWorkload_stage_errors:
  assumes "maybeInitWkld w n o' = (None, o1)" and "loadWkldCmd w n o1 = (Inr c, o2)"
  shows "(\<exists>wl. store_GetWorkload w (calls o1) (appName o1) n = Inr wl \<and>
            wlType o2 = (if Type wl \<in> set (JobTypes w) then ''job'' else ''svc''))
    \<and> (action_stage w (calls o2) c Ask = Some e \<longrightarrow>
         fst (deployWorkload w n o') =
           Some (WrapError (''ask '' @ wlType o2 @ '' deploy: '' @ Error e) e))
    \<and> (action_stage w (calls o2) c Ask = None \<and>
       action_stage w (calls o2 @ [WkldStage n Ask]) c Validate = Some e \<longrightarrow>
         fst (deployWorkload w n o') =
           Some (WrapError (''validate '' @ wlType o2 @ '' deploy: '' @ Error e) e))
    \<and> (action_stage w (calls o2) c Ask = None \<and>
       action_stage w (calls o2 @ [WkldStage n Ask]) c Validate = None \<and>
       action_stage w (calls o2 @ [WkldStage n Ask, WkldStage n Validate]) c Execute = Some e \<longrightarrow>
         fst (deployWorkload w n o') =
           Some (WrapError (''execute '' @ wlType o2 @ '' deploy: '' @ Error e) e))
    \<and> (action_stage w (calls o2) c Ask = None \<and>
       action_stage w (calls o2 @ [WkldStage n Ask]) c Validate = None \<and>
       action_stage w (calls o2 @ [WkldStage n Ask, WkldStage n Validate]) c Execute = None \<and>
       action_stage w (calls o2 @ [WkldStage n Ask, WkldStage n Validate, WkldStage n Execute]) c
         RecommendActions = Some e \<longrightarrow>
         fst (deployWorkload w n o') = Some e)"
proof -
  have d: "deployWorkload w n o' = runStages w n c o2"
    by (rule deployWorkload_loaded [OF assms])
  note t = loadWkldCmd_wlType [OF assms(2)]
  show ?thesis
    unfolding d
    by (intro conjI impI t)
      (simp_all add: runStages_def Errorf_w_def Sprintf_ask Sprintf_validate Sprintf_execute)
qed

subsection \<open>Fail-fast over the batch\<close>




theorem deployWorkload_stage_errors_witness:
  "fst (deployWorkload (stageFailWorld ''mailer'' Ask) ''mailer'' testOpts) =
     Some (WrapError ''ask job deploy: some error'' mockError)
   \<and> fst (deployWorkload (stageFailWorld ''fe'' Validate) ''fe'' testOpts) =
     Some (WrapError ''validate svc deploy: some error'' mockError)
   \<and> fst (deployWorkload (stageFailWorld ''fe'' Execute) ''fe'' testOpts) =
     Some (WrapError ''execute svc deploy: some error'' mockError)
   \<and> fst (deployWorkload (stageFailWorld ''fe'' RecommendActions) ''fe'' testOpts) =
     Some mockError"
proof -
  let ?o1 = "testOpts\<lparr>calls := [ListWorkloads ''app'']\<rparr>"
  let ?m2 = "testOpts\<lparr>calls := [ListWorkloads ''app'', GetWorkload ''app'' ''mailer'',
      SetupDeployCmd ''mailer'' ''Scheduled Job''], wlType := ''job''\<rparr>"
  let ?f2 = "testOpts\<lparr>calls := [ListWorkloads ''app'', GetWorkload ''app'' ''fe'',
      SetupDeployCmd ''fe'' ''Load Balanced Web Service''], wlType := ''svc''\<rparr>"
  have i: "maybeInitWkld (stageFailWorld n s) ''mailer'' testOpts = (None, ?o1)"
    "maybeInitWkld (stageFailWorld n s) ''fe'' testOpts = (None, ?o1)" for n s
    by (simp_all add: run_defs stageFailWorld_def fixture_defs)
  have lm: "loadWkldCmd (stageFailWorld n s) ''mailer'' ?o1 = (Inr (DeploySvcOpts ''mailer''), ?m2)" for n s
    by (simp add: run_defs stageFailWorld_def fixture_defs)
  have lf: "loadWkldCmd (stageFailWorld n s) ''fe'' ?o1 = (Inr (DeploySvcOpts ''fe''), ?f2)" for n s
    by (simp add: run_defs stageFailWorld_def fixture_defs)
  have a: "fst (deployWorkload (stageFailWorld ''mailer'' Ask) ''mailer'' testOpts) =
     Some (WrapError ''ask job deploy: some error'' mockError)"
    using deployWorkload_stage_errors [OF i(1) lm, of "''mailer''" Ask mockError]
    by (simp add: stageFailWorld_def fixture_defs)
  have v: "fst (deployWorkload (stageFailWorld ''fe'' Validate) ''fe'' testOpts) =
     Some (WrapError ''validate svc deploy: some error'' mockError)"
    using deployWorkload_stage_errors [OF i(2) lf, of "''fe''" Validate mockError]
    by (simp add: stageFailWorld_def fixture_defs)
  have x: "fst (deployWorkload (stageFailWorld ''fe'' Execute) ''fe'' testOpts) =
     Some (WrapError ''execute svc deploy: some error'' mockError)"
    using deployWorkload_stage_errors [OF i(2) lf, of "''fe''" Execute mockError]
    by (simp add: stageFailWorld_def fixture_defs)
  have r: "fst (deployWorkload (stageFailWorld ''fe'' RecommendActions) ''fe'' testOpts) =
     Some mockError"
    using deployWorkload_stage_errors [OF i(2) lf, of "''fe''" RecommendActions mockError]
    by (simp add: stageFailWorld_def fixture_defs)
  from a v x r show ?thesis by (intro conjI)
qed

subsection \<open>An environment that exists nowhere\<close>

lemma Sprintf_environment:
  "Sprintf q ''environment %q does not exist in the workspace'' [a] =
     ''environment '' @ q a @ '' does not exist in the workspace''"
  by (simp add: Sprintf.simps)

lemma checkEnvExists_nowhere:
  assumes "store_GetEnvironment w (calls o') (appName o') (envName o') = ErrNoSuchEnvironment e"
    and "(case wsEnvironments o' of
            Some cached \<Rightarrow> Inr cached
          | None \<Rightarrow> ws_ListEnvironments w (calls o' @ [GetEnvironment (appName o') (envName o')]))
         = Inr envs"
    and "envName o' \<notin> set envs"
  shows "fst (checkEnvExists w o') =
           Some (ErrorString
             (''environment '' @ Quote w (envName o') @ '' does not exist in the workspace''))"
    and "calls (snd (checkEnvExists w o')) =
           calls o' @ GetEnvironment (appName o') (envName o') #
             (if wsEnvironments o' = None then [WsListEnvironments] else []) @
             [LogErrorf (Sprintf (Quote w)
                (''Environment %q does not exist in the current application or workspace. Please initialize it by running %s.'' @ [CHR 0x0A])
                [envName o', HighlightCode w ''copilot env init''])]"
  using assms
  by (cases "wsEnvironments o'";
      simp add: checkEnvExists_def listWsEnvironments_def emit_def Errorf_def Sprintf_environment)+

lemma Run_stops_at_check:
  assumes "askName w o' = (None, o1)" and "askEnv w o1 = (None, o2)"
    and "fst (checkEnvExists w o2) = Some err"
  shows "Run w o' = checkEnvExists w o2"
proof -
  obtain o3 where c: "checkEnvExists w o2 = (Some err, o3)"
    using assms(3) by (cases "checkEnvExists w o2") simp
  show ?thesis
    by (simp only: Run_def assms(1) assms(2) c prod.case option.case)
qed

text \<open>
  C4. Let the names be resolved (\<^verbatim>\<open>askName\<close> and \<^verbatim>\<open>askEnv\<close> return \<^verbatim>\<open>nil\<close>), let
  the store answer that there is no such environment, and let the list of workspace
  environments (the cached one, or else the one the workspace returns) not contain the
  name. Then \<^verbatim>\<open>Run\<close> returns the error "environment <name> does not exist in the
  workspace", the name quoted by \<^verbatim>\<open>%q\<close>, and after the \<^verbatim>\<open>GetEnvironment\<close> call the log
  has the listing of the workspace, if it was not cached, and the error line: no prompt, no
  command, no \<^verbatim>\<open>AddWorkloadToApp\<close>.
\<close>

theorem Run_refuses_unknown_environment:
  assumes "askName w o' = (None, o1)" and "askEnv w o1 = (None, o2)"
    and "store_GetEnvironment w (calls o2) (appName o2) (envName o2) = ErrNoSuchEnvironment e"
    and "(case wsEnvironments o2 of
            Some cached \<Rightarrow> Inr cached
          | None \<Rightarrow> ws_ListEnvironments w (calls o2 @ [GetEnvironment (appName o2) (envName o2)]))
         = Inr envs"
    and "envName o2 \<notin> set envs"
  shows "fst (Run w o') =
           Some (ErrorString
             (''environment '' @ Quote w (envName o2) @ '' does not exist in the workspace''))
    \<and> calls (snd (Run w o')) =
           calls o2 @ GetEnvironment (appName o2) (envName o2) #
             (if wsEnvironments o2 = None then [WsListEnvironments] else []) @
             [LogErrorf (Sprintf (Quote w)
                (''Environment %q does not exist in the current application or workspace. Please initialize it by running %s.'' @ [CHR 0x0A])
                [envName o2, HighlightCode w ''copilot env init''])]"
proof -
  note c = checkEnvExists_nowhere [OF assms(3) assms(4) assms(5)]
  have "Run w o' = checkEnvExists w o2"
    by (rule Run_stops_at_check [OF assms(1) assms(2) c(1)])
  with c show ?thesis by (simp only: simp_thms)
qed

theorem Run_refuses_unknown_environment_witness:
  "fst (Run nowhereWorld testOpts) =
     Some (ErrorString
       (''environment '' @ [CHR 0x22] @ ''test'' @ [CHR 0x22] @ '' does not exist in the workspace''))
   \<and> calls (snd (Run nowhereWorld testOpts)) =
     [GetEnvironment ''app'' ''test'', WsListEnvironments,
      LogErrorf (''Environment '' @ [CHR 0x22] @ ''test'' @ [CHR 0x22] @
        '' does not exist in the current application or workspace. Please initialize it by running '' @
        [CHR 0x60] @ ''copilot env init'' @ [CHR 0x60] @ ''.'' @ [CHR 0x0A])]"
proof -
  have h1: "askName nowhereWorld testOpts = (None, testOpts)"
    by (simp add: askName_def testOpts_def)
  have h2: "askEnv nowhereWorld testOpts = (None, testOpts)"
    by (simp add: askEnv_def testOpts_def)
  have h3: "store_GetEnvironment nowhereWorld (calls testOpts) (appName testOpts)
      (envName testOpts) = ErrNoSuchEnvironment mockError"
    by (simp add: nowhereWorld_def)
  have h4: "(case wsEnvironments testOpts of
            Some cached \<Rightarrow> Inr cached
          | None \<Rightarrow> ws_ListEnvironments nowhereWorld
              (calls testOpts @ [GetEnvironment (appName testOpts) (envName testOpts)]))
         = Inr []"
    by (simp add: nowhereWorld_def testOpts_def)
  have h5: "envName testOpts \<notin> set []" by simp
  show ?thesis
    using Run_refuses_unknown_environment [OF h1 h2 h3 h4 h5]
    by (simp add: testOpts_def nowhereWorld_def testWorld_def mockHighlightCode_def
        mockQuote_def Sprintf.simps)
qed

subsection \<open>Initialising and deploying the environment\<close>

lemma envDeployCalls_append [simp]:
  "envDeployCalls (xs @ ys) = envDeployCalls xs @ envDeployCalls ys"
  by (simp add: envDeployCalls_def)

lemma envDeployCalls_Nil [simp]: "envDeployCalls [] = []"
  by (simp add: envDeployCalls_def)

lemma envDeployCalls_Cons [simp]:
  "envDeployCalls (e # es) =
     (case e of NewDeployEnvCmd \<Rightarrow> [e] | DeployEnvStage s \<Rightarrow> [e] | _ \<Rightarrow> []) @ envDeployCalls es"
  by (cases e) (simp_all add: envDeployCalls_def)

lemma askName_envDeploy:
  "envDeployCalls (calls (snd (askName w o'))) = envDeployCalls (calls o')"
  by (simp add: askName_def Let_def split: sum.splits)

lemma askName_deployEnv: "deployEnv (snd (askName w o')) = deployEnv o'"
  by (simp add: askName_def Let_def split: sum.splits)

lemma listWsEnvironments_envDeploy:
  "envDeployCalls (calls (snd (listWsEnvironments w o'))) = envDeployCalls (calls o')"
  by (simp add: listWsEnvironments_def Let_def split: sum.splits option.splits)

lemma listWsEnvironments_deployEnv: "deployEnv (snd (listWsEnvironments w o')) = deployEnv o'"
  by (simp add: listWsEnvironments_def Let_def split: sum.splits option.splits)

lemma askEnv_envDeploy: "envDeployCalls (calls (snd (askEnv w o'))) = envDeployCalls (calls o')"
proof (cases "listWsEnvironments w o'")
  case (Pair r o1)
  have "envDeployCalls (calls o1) = envDeployCalls (calls o')"
    using listWsEnvironments_envDeploy [of w o'] by (simp only: Pair snd_conv)
  then show ?thesis
    by (simp add: askEnv_def Pair Let_def split: sum.splits)
qed

lemma askEnv_deployEnv: "deployEnv (snd (askEnv w o')) = deployEnv o'"
proof (cases "listWsEnvironments w o'")
  case (Pair r o1)
  have "deployEnv o1 = deployEnv o'"
    using listWsEnvironments_deployEnv [of w o'] by (simp only: Pair snd_conv)
  then show ?thesis
    by (simp add: askEnv_def Pair Let_def split: sum.splits)
qed

lemma checkEnvExists_envDeploy:
  "envDeployCalls (calls (snd (checkEnvExists w o'))) = envDeployCalls (calls o')"
  by (simp add: checkEnvExists_def listWsEnvironments_def Let_def
      split: sum.splits option.splits getenv_result.splits)

lemma checkEnvExists_deployEnv: "deployEnv (snd (checkEnvExists w o')) = deployEnv o'"
  by (simp add: checkEnvExists_def listWsEnvironments_def Let_def
      split: sum.splits option.splits getenv_result.splits)

lemma checkEnvExists_ok:
  "checkEnvExists w o2 = (None, o3) \<Longrightarrow> envExistsInApp o3 \<or> envExistsInWs o3"
  by (auto simp add: checkEnvExists_def listWsEnvironments_def Let_def
      split: sum.splits option.splits getenv_result.splits if_splits)

lemma confirmInitEnv_envDeploy:
  "envDeployCalls (calls (snd (confirmInitEnv w o'))) = envDeployCalls (calls o')"
  by (simp add: confirmInitEnv_def Let_def split: sum.splits)

lemma confirmInitEnv_deployEnv: "deployEnv (snd (confirmInitEnv w o')) = deployEnv o'"
  by (simp add: confirmInitEnv_def Let_def split: sum.splits)

lemma confirmInitEnv_flags:
  "envExistsInWs (snd (confirmInitEnv w o')) = envExistsInWs o'"
  "envExistsInApp (snd (confirmInitEnv w o')) = envExistsInApp o'"
  by (simp_all add: confirmInitEnv_def Let_def split: sum.splits)

lemma maybeInitEnv_envDeploy:
  "envDeployCalls (calls (snd (maybeInitEnv w o'))) = envDeployCalls (calls o')"
proof (cases "confirmInitEnv w o'")
  case (Pair r o1)
  have "envDeployCalls (calls o1) = envDeployCalls (calls o')"
    using confirmInitEnv_envDeploy [of w o'] by (simp only: Pair snd_conv)
  then show ?thesis
    by (simp add: maybeInitEnv_def Pair call_cmd_def Let_def split: sum.splits option.splits)
qed

lemma maybeDeployEnv_deployEnv: "deployEnv (snd (maybeDeployEnv w o')) = deployEnv o'"
  by (simp add: maybeDeployEnv_def call_cmd_def Let_def split: sum.splits option.splits)

lemma maybeInitWkld_envDeploy:
  "envDeployCalls (calls (snd (maybeInitWkld w n o'))) = envDeployCalls (calls o')"
  by (simp add: maybeInitWkld_def confirmInitWkld_def Let_def
      split: sum.splits option.splits prod.splits)

lemma maybeInitWkld_deployEnv: "deployEnv (snd (maybeInitWkld w n o')) = deployEnv o'"
  by (simp add: maybeInitWkld_def confirmInitWkld_def Let_def
      split: sum.splits option.splits prod.splits)

lemma loadWkldCmd_envDeploy:
  "envDeployCalls (calls (snd (loadWkldCmd w n o'))) = envDeployCalls (calls o')"
  by (simp add: loadWkldCmd_def Let_def split: sum.splits option.splits prod.splits)

lemma loadWkldCmd_deployEnv: "deployEnv (snd (loadWkldCmd w n o')) = deployEnv o'"
  by (simp add: loadWkldCmd_def Let_def split: sum.splits option.splits prod.splits)

lemma runStages_envDeploy:
  "envDeployCalls (calls (snd (runStages w n c o2))) = envDeployCalls (calls o2)"
  by (simp add: runStages_def split: option.splits)

lemma runStages_deployEnv: "deployEnv (snd (runStages w n c o2)) = deployEnv o2"
  by (simp add: runStages_def split: option.splits)

lemma deployWorkload_frame:
  assumes "\<And>o1. g (snd (maybeInitWkld w n o1)) = g o1"
    and "\<And>o1. g (snd (loadWkldCmd w n o1)) = g o1"
    and "\<And>c o1. g (snd (runStages w n c o1)) = g o1"
  shows "g (snd (deployWorkload w n o')) = g o'"
proof (cases "maybeInitWkld w n o'")
  case (Pair r1 o1)
  note i = this
  have n1: "g o1 = g o'" using assms(1) [of o'] by (simp only: i snd_conv)
  show ?thesis
  proof (cases r1)
    case (Some e)
    with i have "maybeInitWkld w n o' = (Some e, o1)" by simp
    from deployWorkload_init_fails [OF this] show ?thesis by (simp only: snd_conv n1)
  next
    case None
    with i have i': "maybeInitWkld w n o' = (None, o1)" by simp
    show ?thesis
    proof (cases "loadWkldCmd w n o1")
      case (Pair r2 o2)
      have n2: "g o2 = g o1" using assms(2) [of o1] by (simp only: Pair snd_conv)
      show ?thesis
      proof (cases r2)
        case (Inl e)
        with Pair have "loadWkldCmd w n o1 = (Inl e, o2)" by simp
        from deployWorkload_load_fails [OF i' this] show ?thesis by (simp only: snd_conv n1 n2)
      next
        case (Inr c)
        with Pair have "loadWkldCmd w n o1 = (Inr c, o2)" by simp
        from deployWorkload_loaded [OF i' this] show ?thesis
          by (simp only: assms(3) n1 n2)
      qed
    qed
  qed
qed

lemma deployWorkloads_frame:
  assumes "\<And>n o1. g (snd (deployWorkload w n o1)) = g o1"
  shows "g (snd (deployWorkloads w xs o')) = g o'"
proof (induction xs arbitrary: o')
  case Nil show ?case by simp
next
  case (Cons x xs)
  obtain r o1 where d: "deployWorkload w x o' = (r, o1)" by (cases "deployWorkload w x o'")
  have n1: "g o1 = g o'" using assms [of x o'] by (simp only: d snd_conv)
  show ?case
  proof (cases r)
    case None
    show ?thesis
      by (simp only: deployWorkloads.simps d None prod.case option.case Cons [of o1] n1)
  next
    case (Some e)
    show ?thesis
      by (simp only: deployWorkloads.simps d Some prod.case option.case snd_conv n1)
  qed
qed

lemma deployWorkloads_envDeploy:
  "envDeployCalls (calls (snd (deployWorkloads w xs o'))) = envDeployCalls (calls o')"
  by (rule deployWorkloads_frame [where g = "\<lambda>s. envDeployCalls (calls s)"],
      rule deployWorkload_frame [where g = "\<lambda>s. envDeployCalls (calls s)"])
    (rule maybeInitWkld_envDeploy loadWkldCmd_envDeploy runStages_envDeploy)+

lemma deployWorkloads_deployEnv: "deployEnv (snd (deployWorkloads w xs o')) = deployEnv o'"
  by (rule deployWorkloads_frame [where g = deployEnv], rule deployWorkload_frame [where g = deployEnv])
    (rule maybeInitWkld_deployEnv loadWkldCmd_deployEnv runStages_deployEnv)+

lemma maybeInitEnv_fresh:
  assumes "\<not> envExistsInApp o3"
    and "confirmInitEnv w o3 = (None, o3c)" and "BoolValue (yesInitEnv o3c)"
    and "newInitEnvCmd w (calls o3c) = Inr c"
    and "cmd_stage w (calls o3c @ [NewInitEnvCmd]) c Validate = None"
    and "cmd_stage w (calls o3c @ [NewInitEnvCmd, InitEnvStage Validate]) c Ask = None"
    and "cmd_stage w (calls o3c @ [NewInitEnvCmd, InitEnvStage Validate, InitEnvStage Ask]) c
           Execute = None"
    and "deployEnv o3c = None"
  shows "maybeInitEnv w o3 =
     (None, o3c\<lparr>deployEnv := Some True,
                calls := calls o3c @
                  [NewInitEnvCmd, InitEnvStage Validate, InitEnvStage Ask, InitEnvStage Execute,
                   LogInfof (Sprintf (Quote w)
                     (''Environment %q was just initialized. We'' @ [CHR 0x27]
                        @ ''ll deploy it now.'' @ [CHR 0x0A])
                     [envName o3c])]\<rparr>)"
  using assms by (simp add: maybeInitEnv_def call_cmd_def emit_def)

lemma maybeDeployEnv_runs:
  assumes "envExistsInWs o4" and "deployEnv o4 = Some True"
  shows "\<exists>j. j \<le> 3 \<and>
     envDeployCalls (calls (snd (maybeDeployEnv w o4))) =
       envDeployCalls (calls o4) @
         NewDeployEnvCmd # map DeployEnvStage (take j [Validate, Ask, Execute]) \<and>
     (j = 3) =
       (\<exists>d. newDeployEnvCmd w (calls o4) = Inr d \<and>
            cmd_stage w (calls o4 @ [NewDeployEnvCmd]) d Validate = None \<and>
            cmd_stage w (calls o4 @ [NewDeployEnvCmd, DeployEnvStage Validate]) d Ask = None)"
proof (cases "newDeployEnvCmd w (calls o4)")
  case (Inl e)
  with assms show ?thesis
    by (intro exI [of _ 0]) (simp add: maybeDeployEnv_def)
next
  case (Inr d)
  note f = this
  show ?thesis
  proof (cases "cmd_stage w (calls o4 @ [NewDeployEnvCmd]) d Validate")
    case (Some e)
    with assms f show ?thesis
      by (intro exI [of _ 1]) (simp add: maybeDeployEnv_def call_cmd_def)
  next
    case v: None
    show ?thesis
    proof (cases "cmd_stage w (calls o4 @ [NewDeployEnvCmd, DeployEnvStage Validate]) d Ask")
      case (Some e)
      with assms f v show ?thesis
        by (intro exI [of _ 2]) (simp add: maybeDeployEnv_def call_cmd_def)
    next
      case None
      with assms f v show ?thesis
        by (intro exI [of _ 3]) (simp add: maybeDeployEnv_def call_cmd_def)
    qed
  qed
qed

lemma maybeDeployEnv_exact:
  assumes "envExistsInWs o4" and "deployEnv o4 = Some True"
  shows "calls (snd (maybeDeployEnv w o4)) =
     calls o4 @ NewDeployEnvCmd # map DeployEnvStage
       (take (case newDeployEnvCmd w (calls o4) of
                Inl e \<Rightarrow> 0
              | Inr d \<Rightarrow>
             (case cmd_stage w (calls o4 @ [NewDeployEnvCmd]) d Validate of
                Some e \<Rightarrow> 1
              | None \<Rightarrow>
             (case cmd_stage w (calls o4 @ [NewDeployEnvCmd, DeployEnvStage Validate]) d Ask of
                Some e \<Rightarrow> 2
              | None \<Rightarrow> 3)))
          [Validate, Ask, Execute])"
  using assms
  by (simp add: maybeDeployEnv_def call_cmd_def emit_def split: sum.splits option.splits)

lemma Run_after_maybeInitEnv:
  assumes "askName w o' = (None, o1)" and "askEnv w o1 = (None, o2)"
    and "checkEnvExists w o2 = (None, o3)" and "maybeInitEnv w o3 = (None, o4)"
  shows "Run w o' =
     andThen (maybeDeployEnv w o4) (\<lambda>o5. deployWorkloads w (elems (workloadNames o5)) o5)"
  by (simp only: Run_def assms prod.case option.case andThen_def)

lemma after_maybeDeployEnv:
  "envDeployCalls (calls (snd (andThen (maybeDeployEnv w o4)
       (\<lambda>o5. deployWorkloads w (elems (workloadNames o5)) o5)))) =
     envDeployCalls (calls (snd (maybeDeployEnv w o4)))"
  by (rule andThen_frame [where g = "\<lambda>s. envDeployCalls (calls s)"])
    (rule refl deployWorkloads_envDeploy)+

lemma after_maybeDeployEnv_flag:
  "deployEnv (snd (andThen (maybeDeployEnv w o4)
       (\<lambda>o5. deployWorkloads w (elems (workloadNames o5)) o5))) = deployEnv o4"
  by (rule andThen_frame [where g = deployEnv])
    (rule maybeDeployEnv_deployEnv deployWorkloads_deployEnv)+

text \<open>
  C5, as stated, fails when a stage of the environment deploy command fails: here the
  environment is initialised after the prompt, \<^verbatim>\<open>deployEnv\<close> becomes true, and the
  deploy command's \<^verbatim>\<open>Validate\<close> fails, so its \<^verbatim>\<open>Ask\<close> and \<^verbatim>\<open>Execute\<close> do not
  run.
\<close>

theorem Run_env_deploy_stops_counterexample:
  "fst (Run envDeployFailWorld unsetOpts) = Some (ErrorString ''some error'')
   \<and> deployEnv (snd (Run envDeployFailWorld unsetOpts)) = Some True
   \<and> envDeployCalls (calls (snd (Run envDeployFailWorld unsetOpts))) =
       [NewDeployEnvCmd, DeployEnvStage Validate]"
  by (simp add: run_defs envDeployFailWorld_def freshEnvWorld_def unsetOpts_def fixture_defs)

text \<open>
  C5, amended. Let the environment not exist in the application, let its initialisation be
  confirmed or forced, the init command be built and its three stages succeed, and let
  \<^verbatim>\<open>deployEnv\<close> be unset at the start. Then \<^verbatim>\<open>maybeInitEnv\<close> returns \<^verbatim>\<open>nil\<close> with
  \<^verbatim>\<open>deployEnv\<close> set to true, after the three stages and the notice, and \<^verbatim>\<open>deployEnv\<close>
  is still true when \<^verbatim>\<open>Run\<close> returns. \<^verbatim>\<open>maybeDeployEnv\<close> then calls the factory of the
  environment deploy command once and, after it, the stages Validate, Ask, Execute in that
  order up to and including the first that fails: none when the factory fails, one when
  \<^verbatim>\<open>Validate\<close> fails, two when \<^verbatim>\<open>Ask\<close> fails, else all three. These are all the
  calls to the environment deploy command in the whole run.
\<close>

theorem fresh_environment_is_deployed:
  assumes "askName w o' = (None, o1)" and "askEnv w o1 = (None, o2)"
    and "checkEnvExists w o2 = (None, o3)" and "\<not> envExistsInApp o3"
    and "confirmInitEnv w o3 = (None, o3c)" and "BoolValue (yesInitEnv o3c)"
    and "newInitEnvCmd w (calls o3c) = Inr c"
    and "cmd_stage w (calls o3c @ [NewInitEnvCmd]) c Validate = None"
    and "cmd_stage w (calls o3c @ [NewInitEnvCmd, InitEnvStage Validate]) c Ask = None"
    and "cmd_stage w (calls o3c @ [NewInitEnvCmd, InitEnvStage Validate, InitEnvStage Ask]) c
           Execute = None"
    and "deployEnv o' = None"
    and "maybeInitEnv w o3 = (r4, o4)"
  shows "r4 = None \<and> deployEnv o4 = Some True
    \<and> calls o4 = calls o3c @
         [NewInitEnvCmd, InitEnvStage Validate, InitEnvStage Ask, InitEnvStage Execute,
          LogInfof (Sprintf (Quote w)
            (''Environment %q was just initialized. We'' @ [CHR 0x27]
               @ ''ll deploy it now.'' @ [CHR 0x0A])
            [envName o3c])]
    \<and> deployEnv (snd (Run w o')) = Some True
    \<and> (\<exists>j. j \<le> 3 \<and>
          envDeployCalls (calls (snd (Run w o'))) =
            envDeployCalls (calls o') @
              NewDeployEnvCmd # map DeployEnvStage (take j [Validate, Ask, Execute]) \<and>
          (j = 3) =
            (\<exists>d. newDeployEnvCmd w (calls o4) = Inr d \<and>
                 cmd_stage w (calls o4 @ [NewDeployEnvCmd]) d Validate = None \<and>
                 cmd_stage w (calls o4 @ [NewDeployEnvCmd, DeployEnvStage Validate]) d Ask = None))
    \<and> calls (snd (maybeDeployEnv w o4)) =
         calls o4 @ NewDeployEnvCmd # map DeployEnvStage
           (take (case newDeployEnvCmd w (calls o4) of
                    Inl e \<Rightarrow> 0
                  | Inr d \<Rightarrow>
                 (case cmd_stage w (calls o4 @ [NewDeployEnvCmd]) d Validate of
                    Some e \<Rightarrow> 1
                  | None \<Rightarrow>
                 (case cmd_stage w (calls o4 @ [NewDeployEnvCmd, DeployEnvStage Validate]) d
                         Ask of
                    Some e \<Rightarrow> 2
                  | None \<Rightarrow> 3)))
              [Validate, Ask, Execute])
    \<and> envDeployCalls (calls (snd (Run w o'))) =
         envDeployCalls (calls o') @ NewDeployEnvCmd # map DeployEnvStage
           (take (case newDeployEnvCmd w (calls o4) of
                    Inl e \<Rightarrow> 0
                  | Inr d \<Rightarrow>
                 (case cmd_stage w (calls o4 @ [NewDeployEnvCmd]) d Validate of
                    Some e \<Rightarrow> 1
                  | None \<Rightarrow>
                 (case cmd_stage w (calls o4 @ [NewDeployEnvCmd, DeployEnvStage Validate]) d
                         Ask of
                    Some e \<Rightarrow> 2
                  | None \<Rightarrow> 3)))
              [Validate, Ask, Execute])"
proof -
  let ?o4 = "o3c\<lparr>deployEnv := Some True,
                calls := calls o3c @
                  [NewInitEnvCmd, InitEnvStage Validate, InitEnvStage Ask, InitEnvStage Execute,
                   LogInfof (Sprintf (Quote w)
                     (''Environment %q was just initialized. We'' @ [CHR 0x27]
                        @ ''ll deploy it now.'' @ [CHR 0x0A])
                     [envName o3c])]\<rparr>"
  let ?j = "case newDeployEnvCmd w (calls o4) of
                    Inl e \<Rightarrow> 0
                  | Inr d \<Rightarrow>
                 (case cmd_stage w (calls o4 @ [NewDeployEnvCmd]) d Validate of
                    Some e \<Rightarrow> 1
                  | None \<Rightarrow>
                 (case cmd_stage w (calls o4 @ [NewDeployEnvCmd, DeployEnvStage Validate]) d
                         Ask of
                    Some e \<Rightarrow> 2
                  | None \<Rightarrow> (3::nat)))"
  have d1: "deployEnv o1 = deployEnv o'"
    using askName_deployEnv [of w o'] by (simp only: assms(1) snd_conv)
  have d2: "deployEnv o2 = deployEnv o1"
    using askEnv_deployEnv [of w o1] by (simp only: assms(2) snd_conv)
  have d3: "deployEnv o3 = deployEnv o2"
    using checkEnvExists_deployEnv [of w o2] by (simp only: assms(3) snd_conv)
  have d3c: "deployEnv o3c = deployEnv o3"
    using confirmInitEnv_deployEnv [of w o3] by (simp only: assms(5) snd_conv)
  have unset: "deployEnv o3c = None"
    by (simp only: d3c d3 d2 d1 assms(11))
  have m: "maybeInitEnv w o3 = (None, ?o4)"
    by (rule maybeInitEnv_fresh [OF assms(4) assms(5) assms(6) assms(7) assms(8) assms(9)
        assms(10) unset])
  have r4: "r4 = None" and o4: "o4 = ?o4"
    using assms(12) by (simp_all only: m prod.inject)
  have m': "maybeInitEnv w o3 = (None, o4)" by (simp only: m o4)
  have p1: "deployEnv o4 = Some True" by (simp add: o4)
  have p2: "calls o4 = calls o3c @
         [NewInitEnvCmd, InitEnvStage Validate, InitEnvStage Ask, InitEnvStage Execute,
          LogInfof (Sprintf (Quote w)
            (''Environment %q was just initialized. We'' @ [CHR 0x27]
               @ ''ll deploy it now.'' @ [CHR 0x0A])
            [envName o3c])]"
    by (simp add: o4)
  have ws3: "envExistsInWs o3"
    using checkEnvExists_ok [OF assms(3)] assms(4) by simp
  have ws3c: "envExistsInWs o3c"
    using confirmInitEnv_flags(1) [of w o3] ws3 by (simp only: assms(5) snd_conv)
  have ws4: "envExistsInWs o4" using ws3c by (simp add: o4)
  have e1: "envDeployCalls (calls o1) = envDeployCalls (calls o')"
    using askName_envDeploy [of w o'] by (simp only: assms(1) snd_conv)
  have e2: "envDeployCalls (calls o2) = envDeployCalls (calls o1)"
    using askEnv_envDeploy [of w o1] by (simp only: assms(2) snd_conv)
  have e3: "envDeployCalls (calls o3) = envDeployCalls (calls o2)"
    using checkEnvExists_envDeploy [of w o2] by (simp only: assms(3) snd_conv)
  have e4: "envDeployCalls (calls o4) = envDeployCalls (calls o3)"
    using maybeInitEnv_envDeploy [of w o3] by (simp only: m' snd_conv)
  have e: "envDeployCalls (calls o4) = envDeployCalls (calls o')"
    by (simp only: e4 e3 e2 e1)
  have run: "Run w o' =
     andThen (maybeDeployEnv w o4) (\<lambda>o5. deployWorkloads w (elems (workloadNames o5)) o5)"
    by (rule Run_after_maybeInitEnv [OF assms(1) assms(2) assms(3) m'])
  have p3: "deployEnv (snd (Run w o')) = Some True"
    by (simp only: run after_maybeDeployEnv_flag p1)
  have calls_run: "envDeployCalls (calls (snd (Run w o'))) =
      envDeployCalls (calls (snd (maybeDeployEnv w o4)))"
    by (simp only: run after_maybeDeployEnv)
  have p4: "\<exists>j. j \<le> 3 \<and>
          envDeployCalls (calls (snd (Run w o'))) =
            envDeployCalls (calls o') @
              NewDeployEnvCmd # map DeployEnvStage (take j [Validate, Ask, Execute]) \<and>
          (j = 3) =
            (\<exists>d. newDeployEnvCmd w (calls o4) = Inr d \<and>
                 cmd_stage w (calls o4 @ [NewDeployEnvCmd]) d Validate = None \<and>
                 cmd_stage w (calls o4 @ [NewDeployEnvCmd, DeployEnvStage Validate]) d Ask = None)"
    using maybeDeployEnv_runs [OF ws4 p1, of w] by (simp only: calls_run e)
  have p5: "calls (snd (maybeDeployEnv w o4)) =
         calls o4 @ NewDeployEnvCmd # map DeployEnvStage (take ?j [Validate, Ask, Execute])"
    by (rule maybeDeployEnv_exact [OF ws4 p1])
  have stage_calls: "envDeployCalls (map DeployEnvStage ss) = map DeployEnvStage ss" for ss
    by (induction ss) simp_all
  have "envDeployCalls (calls (snd (maybeDeployEnv w o4))) =
      envDeployCalls (calls o4) @
        NewDeployEnvCmd # map DeployEnvStage (take ?j [Validate, Ask, Execute])"
    unfolding p5 by (simp add: stage_calls)
  then have p6: "envDeployCalls (calls (snd (Run w o'))) =
         envDeployCalls (calls o') @
           NewDeployEnvCmd # map DeployEnvStage (take ?j [Validate, Ask, Execute])"
    by (simp only: calls_run e)
  from r4 p1 p2 p3 p4 p5 p6 show ?thesis by (intro conjI)
qed

theorem fresh_environment_is_deployed_witness:
  "deployEnv (snd (Run freshEnvWorld unsetOpts)) = Some True
   \<and> envDeployCalls (calls (snd (Run freshEnvWorld unsetOpts))) =
       [NewDeployEnvCmd, DeployEnvStage Validate, DeployEnvStage Ask, DeployEnvStage Execute]
   \<and> envDeployCalls (calls (snd (Run envDeployFailWorld unsetOpts))) =
       [NewDeployEnvCmd, DeployEnvStage Validate]"
proof -
  let ?o3 = "unsetOpts\<lparr>envExistsInApp := False, envExistsInWs := True,
      wsEnvironments := Some [''test''],
      calls := [GetEnvironment ''app'' ''test'', WsListEnvironments]\<rparr>"
  let ?msg = "Sprintf mockQuote ''Environment %q does not exist in app %q. Initialize it?''
      [''test'', ''app'']"
  let ?o3c = "?o3\<lparr>yesInitEnv := Some True,
      calls := [GetEnvironment ''app'' ''test'', WsListEnvironments, Confirm ?msg []]\<rparr>"
  have h1: "askName w unsetOpts = (None, unsetOpts)" for w
    by (simp add: askName_def unsetOpts_def testOpts_def)
  have h2: "askEnv w unsetOpts = (None, unsetOpts)" for w
    by (simp add: askEnv_def unsetOpts_def testOpts_def)
  have h3: "checkEnvExists freshEnvWorld unsetOpts = (None, ?o3)"
    "checkEnvExists envDeployFailWorld unsetOpts = (None, ?o3)"
    by (simp_all add: run_defs envDeployFailWorld_def freshEnvWorld_def unsetOpts_def fixture_defs)
  have h4: "\<not> envExistsInApp ?o3" by simp
  have h5: "confirmInitEnv freshEnvWorld ?o3 = (None, ?o3c)"
    "confirmInitEnv envDeployFailWorld ?o3 = (None, ?o3c)"
    by (simp_all add: run_defs envDeployFailWorld_def freshEnvWorld_def unsetOpts_def fixture_defs)
  have h6: "BoolValue (yesInitEnv ?o3c)" by simp
  have h7: "newInitEnvCmd freshEnvWorld (calls ?o3c) = Inr InitEnvOpts"
    "newInitEnvCmd envDeployFailWorld (calls ?o3c) = Inr InitEnvOpts"
    by (simp_all add: envDeployFailWorld_def freshEnvWorld_def testWorld_def)
  have h8: "cmd_stage freshEnvWorld h InitEnvOpts s = None"
    "cmd_stage envDeployFailWorld h InitEnvOpts s = None" for h s
    by (simp_all add: envDeployFailWorld_def freshEnvWorld_def testWorld_def)
  have h11: "deployEnv unsetOpts = None" by (simp add: unsetOpts_def)
  have h12: "maybeInitEnv w ?o3 = (fst (maybeInitEnv w ?o3), snd (maybeInitEnv w ?o3))" for w
    by simp
  have c: "calls unsetOpts = []" by (simp add: unsetOpts_def testOpts_def)
  note t1 = fresh_environment_is_deployed
    [OF h1 h2 h3(1) h4 h5(1) h6 h7(1) h8(1) h8(1) h8(1) h11 h12]
  note t2 = fresh_environment_is_deployed
    [OF h1 h2 h3(2) h4 h5(2) h6 h7(2) h8(2) h8(2) h8(2) h11 h12]
  have a: "deployEnv (snd (Run freshEnvWorld unsetOpts)) = Some True"
    by (rule conjunct1 [OF conjunct2 [OF conjunct2 [OF conjunct2 [OF t1]]]])
  have b: "envDeployCalls (calls (snd (Run freshEnvWorld unsetOpts))) =
       [NewDeployEnvCmd, DeployEnvStage Validate, DeployEnvStage Ask, DeployEnvStage Execute]"
    using conjunct2 [OF conjunct2 [OF conjunct2 [OF conjunct2 [OF conjunct2 [OF conjunct2 [OF t1]]]]]]
    by (simp add: c freshEnvWorld_def testWorld_def)
  have d: "envDeployCalls (calls (snd (Run envDeployFailWorld unsetOpts))) =
       [NewDeployEnvCmd, DeployEnvStage Validate]"
    using conjunct2 [OF conjunct2 [OF conjunct2 [OF conjunct2 [OF conjunct2 [OF conjunct2 [OF t2]]]]]]
    by (simp add: c envDeployFailWorld_def freshEnvWorld_def testWorld_def)
  from a b d show ?thesis by (intro conjI)
qed

subsection \<open>An environment without a local manifest\<close>

text \<open>
  C10. When the store has the environment and the workspace list does not,
  \<^verbatim>\<open>checkEnvExists\<close> returns \<^verbatim>\<open>nil\<close> after the notice about the missing manifest, and
  then \<^verbatim>\<open>maybeInitEnv\<close> and \<^verbatim>\<open>maybeDeployEnv\<close> return \<^verbatim>\<open>nil\<close> and change nothing,
  the call log included, whatever \<^verbatim>\<open>deployEnv\<close> is: a \<^verbatim>\<open>deployEnv\<close> forced to true is
  not acted on and not reported.
\<close>

theorem remote_only_environment_not_deployed:
  assumes "store_GetEnvironment w (calls o') (appName o') (envName o') = EnvFound"
    and "(case wsEnvironments o' of
            Some cached \<Rightarrow> Inr cached
          | None \<Rightarrow> ws_ListEnvironments w (calls o' @ [GetEnvironment (appName o') (envName o')]))
         = Inr envs"
    and "envName o' \<notin> set envs"
    and "checkEnvExists w o' = (r, o3)"
  shows "r = None \<and> envExistsInApp o3 \<and> \<not> envExistsInWs o3 \<and> deployEnv o3 = deployEnv o'
    \<and> calls o3 =
         calls o' @ GetEnvironment (appName o') (envName o') #
           (if wsEnvironments o' = None then [WsListEnvironments] else []) @
           [LogInfof (Sprintf (Quote w)
              ''Manifest for environment %q does not exist in the current workspace. To deploy this environment, generate a manifest with %s''
              [envName o', HighlightCode w ''copilot env show --manifest''])]
    \<and> maybeInitEnv w o3 = (None, o3)
    \<and> maybeDeployEnv w o3 = (None, o3)"
proof -
  have c: "r = None \<and> envExistsInApp o3 \<and> \<not> envExistsInWs o3 \<and> deployEnv o3 = deployEnv o'
    \<and> calls o3 =
         calls o' @ GetEnvironment (appName o') (envName o') #
           (if wsEnvironments o' = None then [WsListEnvironments] else []) @
           [LogInfof (Sprintf (Quote w)
              ''Manifest for environment %q does not exist in the current workspace. To deploy this environment, generate a manifest with %s''
              [envName o', HighlightCode w ''copilot env show --manifest''])]"
    using assms
    by (cases "wsEnvironments o'")
      (auto simp add: checkEnvExists_def listWsEnvironments_def emit_def)
  have i: "maybeInitEnv w o3 = (None, o3)" using c by (simp add: maybeInitEnv_def)
  have d: "maybeDeployEnv w o3 = (None, o3)" using c by (simp add: maybeDeployEnv_def)
  from c i d show ?thesis by simp
qed

theorem remote_only_environment_not_deployed_witness:
  "fst (checkEnvExists storeOnlyWorld forcedOpts) = None
   \<and> deployEnv (snd (checkEnvExists storeOnlyWorld forcedOpts)) = Some True
   \<and> calls (snd (checkEnvExists storeOnlyWorld forcedOpts)) =
       [GetEnvironment ''app'' ''test'', WsListEnvironments,
        LogInfof (''Manifest for environment '' @ [CHR 0x22] @ ''test'' @ [CHR 0x22] @
          '' does not exist in the current workspace. To deploy this environment, generate a manifest with '' @
          [CHR 0x60] @ ''copilot env show --manifest'' @ [CHR 0x60])]
   \<and> maybeDeployEnv storeOnlyWorld (snd (checkEnvExists storeOnlyWorld forcedOpts)) =
       (None, snd (checkEnvExists storeOnlyWorld forcedOpts))"
proof -
  have h1: "store_GetEnvironment storeOnlyWorld (calls forcedOpts) (appName forcedOpts)
      (envName forcedOpts) = EnvFound"
    by (simp add: storeOnlyWorld_def testWorld_def)
  have h2: "(case wsEnvironments forcedOpts of
            Some cached \<Rightarrow> Inr cached
          | None \<Rightarrow> ws_ListEnvironments storeOnlyWorld
              (calls forcedOpts @ [GetEnvironment (appName forcedOpts) (envName forcedOpts)]))
         = Inr []"
    by (simp add: storeOnlyWorld_def forcedOpts_def testOpts_def)
  have h3: "envName forcedOpts \<notin> set []" by simp
  have h4: "checkEnvExists storeOnlyWorld forcedOpts =
      (fst (checkEnvExists storeOnlyWorld forcedOpts),
       snd (checkEnvExists storeOnlyWorld forcedOpts))"
    by simp
  show ?thesis
    using remote_only_environment_not_deployed [OF h1 h2 h3 h4]
    by (simp add: forcedOpts_def testOpts_def storeOnlyWorld_def testWorld_def
        mockHighlightCode_def mockQuote_def Sprintf.simps)
qed

end
